theory Spec2Isabelle
  imports Main
begin

section \<open>Raw items: JSON values as delivered by the actor's dataset\<close>

text \<open>
  A dataset item is a JSON object decoded into a Python dict. Values are modelled by
  \<open>json\<close>; JSON numbers with a fractional part (Python floats) are outside the model.
  A dict is an association list read through \<open>map_of\<close>.
\<close>

datatype json =
    JNull
  | JBool bool
  | JInt int
  | JStr string
  | JArr "json list"
  | JObj "(string \<times> json) list"

type_synonym item = "(string \<times> json) list"

datatype py_error = AttributeError | ValueError | OverflowError | IntegrityError | RemoteError

text \<open>Python truthiness of a decoded JSON value.\<close>

fun truthy :: "json \<Rightarrow> bool" where
  "truthy JNull = False"
| "truthy (JBool b) = b"
| "truthy (JInt i) = (i \<noteq> 0)"
| "truthy (JStr s) = (s \<noteq> [])"
| "truthy (JArr xs) = (xs \<noteq> [])"
| "truthy (JObj kv) = (kv \<noteq> [])"

text \<open>\<open>a or b\<close> on values.\<close>

definition py_or :: "json \<Rightarrow> json \<Rightarrow> json" where
  "py_or a b = (if truthy a then a else b)"

text \<open>\<open>d.get(k, default)\<close> and \<open>d.get(k)\<close> on a dict.\<close>

definition get_default :: "item \<Rightarrow> string \<Rightarrow> json \<Rightarrow> json" where
  "get_default d k dflt = (case map_of d k of None \<Rightarrow> dflt | Some v \<Rightarrow> v)"

definition get :: "item \<Rightarrow> string \<Rightarrow> json" where
  "get d k = get_default d k JNull"

text \<open>\<open>k in d\<close> and \<open>set(d.keys())\<close>.\<close>

definition py_in :: "string \<Rightarrow> item \<Rightarrow> bool" where
  "py_in k d = (map_of d k \<noteq> None)"

definition keys :: "item \<Rightarrow> string set" where
  "keys d = set (map fst d)"

text \<open>
  \<^verbatim>\<open>
  def _is_demo_item(item: dict) -> bool:
      keys = set(item.keys())
      return keys == {"demo"} or (keys == {"demo", "type"}
          and not any(k in item for k in ["id", "text", "fullText"]))
  \<close>
\<close>

definition is_demo_item :: "item \<Rightarrow> bool" where
  "is_demo_item item =
     (let ks = keys item in
      ks = {''demo''} \<or>
      (ks = {''demo'', ''type''} \<and>
       \<not> list_ex (\<lambda>k. py_in k item) [''id'', ''text'', ''fullText'']))"

section \<open>Python string operations\<close>

text \<open>
  Strings are lists of characters with code points below 256. The characters for which
  \<open>str.isspace\<close> holds in that range are 9 to 13, 28 to 32, 133 and 160; \<open>str.strip()\<close>
  removes exactly these from both ends.
\<close>

definition whitespace :: string where
  "whitespace = [CHR 0x09, CHR 0x0A, CHR 0x0B, CHR 0x0C, CHR 0x0D, CHR 0x1C, CHR 0x1D,
                 CHR 0x1E, CHR 0x1F, CHR 0x20, CHR 0x85, CHR 0xA0]"

definition is_space :: "char \<Rightarrow> bool" where
  "is_space c = (c \<in> set whitespace)"

definition lstrip_by :: "(char \<Rightarrow> bool) \<Rightarrow> string \<Rightarrow> string" where
  "lstrip_by P s = dropWhile P s"

definition rstrip_by :: "(char \<Rightarrow> bool) \<Rightarrow> string \<Rightarrow> string" where
  "rstrip_by P s = rev (dropWhile P (rev s))"

definition strip_by :: "(char \<Rightarrow> bool) \<Rightarrow> string \<Rightarrow> string" where
  "strip_by P s = rstrip_by P (lstrip_by P s)"

text \<open>\<open>s.strip()\<close>, \<open>s.strip("/")\<close> and \<open>s.lstrip("@")\<close>.\<close>

definition py_strip :: "string \<Rightarrow> string" where
  "py_strip s = strip_by is_space s"

definition strip_slash :: "string \<Rightarrow> string" where
  "strip_slash s = strip_by (\<lambda>c. c = CHR ''/'') s"

definition lstrip_at :: "string \<Rightarrow> string" where
  "lstrip_at s = lstrip_by (\<lambda>c. c = CHR ''@'') s"

text \<open>\<open>s.startswith(p)\<close> and \<open>sub in s\<close>.\<close>

definition startswith :: "string \<Rightarrow> string \<Rightarrow> bool" where
  "startswith s p = (take (length p) s = p)"

fun py_contains :: "string \<Rightarrow> string \<Rightarrow> bool" where
  "py_contains sub [] = (sub = [])"
| "py_contains sub (c # cs) = (startswith (c # cs) sub \<or> py_contains sub cs)"

text \<open>
  \<open>s.split(sep)\<close> for a non-empty separator, scanning left to right without overlaps.
  The counter is the number of characters of a matched separator still to be skipped.
\<close>

fun split_skip :: "string \<Rightarrow> nat \<Rightarrow> string \<Rightarrow> string list" where
  "split_skip sep n [] = [[]]"
| "split_skip sep (Suc n) (c # cs) = split_skip sep n cs"
| "split_skip sep 0 (c # cs) =
     (if startswith (c # cs) sep then [] # split_skip sep (length sep - 1) cs
      else (case split_skip sep 0 cs of
              [] \<Rightarrow> [[c]]
            | p # ps \<Rightarrow> (c # p) # ps))"

definition py_split :: "string \<Rightarrow> string \<Rightarrow> string list" where
  "py_split s sep = split_skip sep 0 s"

text \<open>\<open>sep.join(parts)\<close> and \<open>s.replace(old, new)\<close> for a non-empty \<open>old\<close>.\<close>

fun py_join :: "string \<Rightarrow> string list \<Rightarrow> string" where
  "py_join sep [] = []"
| "py_join sep [p] = p"
| "py_join sep (p # q # ps) = p @ sep @ py_join sep (q # ps)"

definition py_replace :: "string \<Rightarrow> string \<Rightarrow> string \<Rightarrow> string" where
  "py_replace s old new = py_join new (py_split s old)"

text \<open>\<open>s.split("/", 1)[0]\<close>: the text before the first slash.\<close>

definition first_segment :: "string \<Rightarrow> string" where
  "first_segment s = takeWhile (\<lambda>c. c \<noteq> CHR ''/'') s"

section \<open>Time\<close>

text \<open>
  A \<open>datetime\<close> is its wall-clock reading in microseconds since 0001-01-01T00:00:00 and
  its UTC offset in microseconds, \<open>None\<close> for a naive value. A \<open>date\<close> is a number of
  days since 0001-01-01. The last representable microsecond belongs to 9999-12-31.
\<close>

record datetime =
  wall :: int
  tzoff :: "int option"

definition day_us :: int where
  "day_us = 86400000000"

definition max_us :: int where
  "max_us = 3652059 * day_us"

text \<open>The instant on the UTC time line denoted by an aware value.\<close>

definition utc_instant :: "datetime \<Rightarrow> int" where
  "utc_instant d = wall d - (case tzoff d of None \<Rightarrow> 0 | Some off \<Rightarrow> off)"

text \<open>\<open>datetime.combine(d, datetime.min.time(), tzinfo=timezone.utc)\<close>.\<close>

definition midnight_utc :: "int \<Rightarrow> datetime" where
  "midnight_utc d = \<lparr>wall = d * day_us, tzoff = Some 0\<rparr>"

text \<open>\<open>dt.date()\<close>: the calendar day of the wall-clock reading.\<close>

definition date_of :: "datetime \<Rightarrow> int" where
  "date_of d = wall d div day_us"

section \<open>The world outside the repository\<close>

text \<open>
  Results of the remote services, one per request. The actor either fails to run, returns
  a run without dataset id, fails while its dataset is read, or yields the items of its
  dataset. The text-generation
  request either raises inside \<open>call_chatgpt\<close>'s \<open>try\<close> block (with the message of the
  exception), answers without choices, or answers with the content of the first choice.
\<close>

datatype actor_outcome =
    CallRaised string
  | NoDatasetId
  | DatasetRaised
  | Dataset "item list"

datatype chat_outcome =
    Raised string
  | NoChoices
  | Content string

text \<open>
  Library functions, configuration and services the code calls but does not define:
  \<^item> \<open>urlparse_path u\<close> is \<open>urlparse(u).path\<close>, \<open>None\<close> when \<open>urlparse\<close> raises;
  \<^item> \<open>fromisoformat\<close> and \<open>dateutil_parse\<close> are the two parsers, \<open>None\<close> when they raise;
  \<^item> \<open>local_utcoffset t\<close> is the UTC offset of the system time zone at wall-clock
    reading \<open>t\<close>, used by \<open>astimezone\<close> on a naive value, \<open>None\<close> when the platform
    cannot convert \<open>t\<close>;
  \<^item> \<open>py_repr\<close> is \<open>str()\<close> on lists and dicts;
  \<^item> \<open>column_text v\<close> is the text a \<open>String\<close> column of the database holds once a
    value \<open>v\<close> that is not a string has been stored in it;
  \<^item> \<open>today_local\<close> is \<open>date.today()\<close>, \<open>today_utc\<close> is \<open>datetime.utcnow().date()\<close>;
  \<^item> \<open>SINCE_DAYS\<close> and \<open>OPENAI_API_KEY\<close> are read from the environment;
  \<^item> \<open>autoflush\<close> is the session's setting: whether a query sees rows added but not
    yet committed;
  \<^item> \<open>tweet_actor\<close> and \<open>fb_actor\<close> are the outcomes of the actor runs;
  \<^item> \<open>chat n prompt\<close> is the outcome of the \<open>n\<close>-th text-generation request.
\<close>

record world =
  urlparse_path :: "string \<Rightarrow> string option"
  fromisoformat :: "string \<Rightarrow> datetime option"
  dateutil_parse :: "string \<Rightarrow> datetime option"
  local_utcoffset :: "int \<Rightarrow> int option"
  py_repr :: "json \<Rightarrow> string"
  column_text :: "json \<Rightarrow> string"
  today_local :: int
  today_utc :: int
  SINCE_DAYS :: int
  OPENAI_API_KEY :: "string option"
  autoflush :: bool
  tweet_actor :: actor_outcome
  fb_actor :: actor_outcome
  chat :: "nat \<Rightarrow> string \<Rightarrow> chat_outcome"

section \<open>Helpers of the tweet scraper\<close>

text \<open>
  \<^verbatim>\<open>
  def _normalize_handle(h: str) -> str:
      if not h:
          return ""
      h = h.strip()
      if h.startswith("http"):
          path = urlparse(h).path.strip("/")
          return (path.split("/", 1)[0] if path else "").lstrip("@")
      return h.lstrip("@")
  \<close>
\<close>

definition normalize_handle :: "world \<Rightarrow> string \<Rightarrow> py_error + string" where
  "normalize_handle w h =
     (if h = [] then Inr []
      else let h' = py_strip h in
        if startswith h' ''http'' then
          (case urlparse_path w h' of
             None \<Rightarrow> Inl ValueError
           | Some p \<Rightarrow>
               let path = strip_slash p in
               Inr (lstrip_at (if path \<noteq> [] then first_segment path else [])))
        else Inr (lstrip_at h'))"

text \<open>
  \<open>dt.astimezone(timezone.utc)\<close>: an aware value is shifted by its own offset, a naive one
  by the offset of the system time zone; the result must be a representable datetime.
\<close>

definition astimezone_utc :: "world \<Rightarrow> datetime \<Rightarrow> datetime option" where
  "astimezone_utc w d =
     (case (case tzoff d of None \<Rightarrow> local_utcoffset w (wall d) | Some off \<Rightarrow> Some off) of
        None \<Rightarrow> None
      | Some off \<Rightarrow>
          let u = wall d - off in
          if 0 \<le> u \<and> u < max_us then Some \<lparr>wall = u, tzoff = Some 0\<rparr> else None)"

text \<open>
  \<^verbatim>\<open>
  def _parse_timestamp(s: str):
      if not s:
          return None
      try:
          # ISO with 'Z'
          return datetime.fromisoformat(s.replace("Z", "+00:00")).astimezone(timezone.utc)
      except Exception:
          pass
      try:
          dt = dtparser.parse(s)
          if dt.tzinfo is None:
              return dt.replace(tzinfo=timezone.utc)
          return dt.astimezone(timezone.utc)
      except Exception:
          return None
  \<close>
  The two attempts are \<open>iso_attempt\<close> and \<open>dateutil_attempt\<close>. The caller passes whatever
  value the item holds: on a value that is not a string, \<open>s.replace\<close> and
  \<open>dtparser.parse\<close> both raise inside their \<open>try\<close>.
\<close>

definition iso_attempt :: "world \<Rightarrow> string \<Rightarrow> datetime option" where
  "iso_attempt w s =
     (case fromisoformat w (py_replace s ''Z'' ''+00:00'') of
        None \<Rightarrow> None
      | Some d \<Rightarrow> astimezone_utc w d)"

definition dateutil_attempt :: "world \<Rightarrow> string \<Rightarrow> datetime option" where
  "dateutil_attempt w s =
     (case dateutil_parse w s of
        None \<Rightarrow> None
      | Some dt \<Rightarrow>
          if tzoff dt = None then Some (dt\<lparr>tzoff := Some 0\<rparr>)
          else astimezone_utc w dt)"

definition parse_timestamp :: "world \<Rightarrow> json \<Rightarrow> datetime option" where
  "parse_timestamp w s =
     (if \<not> truthy s then None
      else case s of
        JStr str \<Rightarrow>
          (case iso_attempt w str of
             Some d \<Rightarrow> Some d
           | None \<Rightarrow> dateutil_attempt w str)
      | _ \<Rightarrow> None)"

text \<open>Errors are values: \<open>Inl e\<close> is the exception that reached the caller.\<close>

definition err_bind :: "'e + 'a \<Rightarrow> ('a \<Rightarrow> 'e + 'b) \<Rightarrow> 'e + 'b" where
  "err_bind m f = (case m of Inl e \<Rightarrow> Inl e | Inr x \<Rightarrow> f x)"

text \<open>\<open>v.get(k)\<close> on a value that may not be a dict: only a dict has \<open>get\<close>.\<close>

definition attr_get :: "json \<Rightarrow> string \<Rightarrow> py_error + json" where
  "attr_get v k = (case v of JObj d \<Rightarrow> Inr (get d k) | _ \<Rightarrow> Inl AttributeError)"

text \<open>\<open>str(v)\<close>: decimal digits for an integer, the text itself for a string.\<close>

definition digit_char :: "nat \<Rightarrow> char" where
  "digit_char n = char_of (48 + n)"

function digits :: "nat \<Rightarrow> string" where
  "digits n = (if n < 10 then [digit_char n] else digits (n div 10) @ [digit_char (n mod 10)])"
  by pat_completeness auto
termination
  by (relation "measure (\<lambda>n. n)") auto

declare digits.simps [simp del]

definition py_str :: "world \<Rightarrow> json \<Rightarrow> string" where
  "py_str w v =
     (case v of
        JNull \<Rightarrow> ''None''
      | JBool b \<Rightarrow> (if b then ''True'' else ''False'')
      | JInt i \<Rightarrow> (if i < 0 then CHR ''-'' # digits (nat (- i)) else digits (nat i))
      | JStr s \<Rightarrow> s
      | _ \<Rightarrow> py_repr w v)"

text \<open>
  \<^verbatim>\<open>
  def _pick_timestamp_raw(item: dict) -> str:
      return (
          item.get("createdAt")
          or item.get("created_at")
          or (item.get("legacy") or {}).get("created_at")
          or (item.get("tweet") or {}).get("createdAt")
          or (item.get("tweet") or {}).get("created_at")
          or ""
      )
  \<close>
  The alternatives are evaluated from left to right and only as far as needed.
\<close>

definition pick_timestamp_raw :: "item \<Rightarrow> py_error + json" where
  "pick_timestamp_raw item =
     (if truthy (get item ''createdAt'') then Inr (get item ''createdAt'')
      else if truthy (get item ''created_at'') then Inr (get item ''created_at'')
      else err_bind (attr_get (py_or (get item ''legacy'') (JObj [])) ''created_at'') (\<lambda>a.
        if truthy a then Inr a
        else err_bind (attr_get (py_or (get item ''tweet'') (JObj [])) ''createdAt'') (\<lambda>b.
          if truthy b then Inr b
          else err_bind (attr_get (py_or (get item ''tweet'') (JObj [])) ''created_at'') (\<lambda>c.
            Inr (py_or c (JStr []))))))"

text \<open>
  \<^verbatim>\<open>
  def _extract_author(item: dict):
      author = item.get("author") or {}
      name = author.get("name") or ""
      username = author.get("username") or author.get("userName") or ""
      if not username and item.get("user"):
          username = item["user"].get("screen_name") or ""
          name = name or item["user"].get("name") or ""
      return name, username
  \<close>
\<close>

definition extract_author :: "item \<Rightarrow> py_error + (json \<times> json)" where
  "extract_author item =
     (case py_or (get item ''author'') (JObj []) of
        JObj author \<Rightarrow>
          let name = py_or (get author ''name'') (JStr []);
              username = py_or (get author ''username'')
                           (py_or (get author ''userName'') (JStr []))
          in if \<not> truthy username \<and> truthy (get item ''user'') then
               err_bind (attr_get (get item ''user'') ''screen_name'') (\<lambda>sn.
               err_bind (attr_get (get item ''user'') ''name'') (\<lambda>un.
                 Inr (py_or name (py_or un (JStr [])), py_or sn (JStr []))))
             else Inr (name, username)
      | _ \<Rightarrow> Inl AttributeError)"

text \<open>
  \<^verbatim>\<open>
  def _extract_text(item: dict):
      return (item.get("fullText") or item.get("text") or "").strip()
  \<close>
\<close>

definition extract_text :: "item \<Rightarrow> py_error + string" where
  "extract_text item =
     (case py_or (get item ''fullText'') (py_or (get item ''text'') (JStr [])) of
        JStr s \<Rightarrow> Inr (py_strip s)
      | _ \<Rightarrow> Inl AttributeError)"

text \<open>
  \<^verbatim>\<open>
  def _extract_photo_url(item: dict):
      ent = item.get("entities") or {}
      media = ent.get("media") or []
      if isinstance(media, list) and media:
          m = media[0]
          return m.get("media_url_https") or m.get("media_url") or ""

      ext = item.get("extendedEntities") or item.get("extended_entities") or {}
      media2 = ext.get("media") or []
      if isinstance(media2, list) and media2:
          m = media2[0]
          return m.get("media_url_https") or m.get("media_url") or ""

      return ""
  \<close>
\<close>

definition first_media_url :: "json \<Rightarrow> py_error + json" where
  "first_media_url m =
     err_bind (attr_get m ''media_url_https'') (\<lambda>a.
       if truthy a then Inr a
       else err_bind (attr_get m ''media_url'') (\<lambda>b. Inr (py_or b (JStr []))))"

definition extract_photo_url :: "item \<Rightarrow> py_error + json" where
  "extract_photo_url item =
     err_bind (attr_get (py_or (get item ''entities'') (JObj [])) ''media'') (\<lambda>mv.
       case py_or mv (JArr []) of
         JArr (m # ms) \<Rightarrow> first_media_url m
       | _ \<Rightarrow>
           err_bind (attr_get (py_or (get item ''extendedEntities'')
                                 (py_or (get item ''extended_entities'') (JObj []))) ''media'')
             (\<lambda>mv2.
                case py_or mv2 (JArr []) of
                  JArr (m # ms) \<Rightarrow> first_media_url m
                | _ \<Rightarrow> Inr (JStr [])))"

section \<open>Persistent records\<close>

text \<open>
  The rows of the tables \<open>scraped_tweet\<close> and \<open>scraped_fb_post\<close> with the values the
  code hands to the ORM; \<open>None\<close> in an enrichment field is a column never written.
  The field \<open>user_id\<close> of the two tables is \<open>tweet_user_id\<close> and \<open>post_user_id\<close>,
  the tweet's \<open>text\<close> is \<open>tweet_text\<close>, a post's \<open>chatgpt_output\<close> is
  \<open>post_chatgpt_output\<close>.
\<close>

record scraped_tweet =
  tweet_id :: string
  tweet_user_id :: int
  tweet_text :: string
  full_text :: json
  lang :: json
  retweet_count :: json
  reply_count :: json
  like_count :: json
  quote_count :: json
  created_at :: datetime
  author_name :: json
  author_username :: json
  photo_url :: json
  chatgpt_title :: "string option"
  chatgpt_output :: "string option"

record scraped_fb_post =
  post_id :: json
  post_user_id :: int
  page_name :: json
  post_url :: json
  post_text :: json
  time_of_posting :: json
  number_of_likes :: json
  number_of_comments :: json
  number_of_shares :: json
  first_post_picture :: json
  profile_picture :: json
  posttitle :: "string option"
  post_chatgpt_output :: "string option"

record user =
  user_id :: int
  email :: string
  user_name :: "string option"
  preferred_language :: "string option"
  preferred_language_facebook :: "string option"
  twitter_handles :: "string option list"
  facebook_pages :: "string option list"

text \<open>Messages written with \<open>logger.error\<close>; the other log levels are not modelled.\<close>

datatype log_error =
    ErrCallingApify string
  | ErrNoDatasetId
  | ErrCallingChatGPT string
  | ErrParsingTime json
  | ErrParsingChatGPT

definition language_map :: "(string \<times> string) list" where
  "language_map =
    [(''af'', ''Afrikaans''), (''sq'', ''Albanian''), (''am'', ''Amharic''),
     (''ar'', ''Arabic''), (''hy'', ''Armenian''), (''az'', ''Azerbaijani''),
     (''eu'', ''Basque''), (''be'', ''Belarusian''), (''bn'', ''Bengali''),
     (''bs'', ''Bosnian''), (''bg'', ''Bulgarian''), (''ca'', ''Catalan''),
     (''ceb'', ''Cebuano''), (''ny'', ''Chichewa''), (''zh-CN'', ''Chinese (Simplified)''),
     (''zh-TW'', ''Chinese (Traditional)''), (''co'', ''Corsican''), (''hr'', ''Croatian''),
     (''cs'', ''Czech''), (''da'', ''Danish''), (''nl'', ''Dutch''), (''en'', ''English''),
     (''eo'', ''Esperanto''), (''et'', ''Estonian''), (''tl'', ''Filipino''),
     (''fi'', ''Finnish''), (''fr'', ''French''), (''fy'', ''Frisian''),
     (''gl'', ''Galician''), (''ka'', ''Georgian''), (''de'', ''German''), (''el'', ''Greek''),
     (''gu'', ''Gujarati''), (''ht'', ''Haitian Creole''), (''ha'', ''Hausa''),
     (''haw'', ''Hawaiian''), (''he'', ''Hebrew''), (''hi'', ''Hindi''), (''hmn'', ''Hmong''),
     (''hu'', ''Hungarian''), (''is'', ''Icelandic''), (''ig'', ''Igbo''),
     (''id'', ''Indonesian''), (''ga'', ''Irish''), (''it'', ''Italian''),
     (''ja'', ''Japanese''), (''jw'', ''Javanese''), (''kn'', ''Kannada''),
     (''kk'', ''Kazakh''), (''km'', ''Khmer''), (''rw'', ''Kinyarwanda''),
     (''ko'', ''Korean''), (''ku'', ''Kurdish (Kurmanji)''), (''ky'', ''Kyrgyz''),
     (''lo'', ''Lao''), (''la'', ''Latin''), (''lv'', ''Latvian''), (''lt'', ''Lithuanian''),
     (''lb'', ''Luxembourgish''), (''mk'', ''Macedonian''), (''mg'', ''Malagasy''),
     (''ms'', ''Malay''), (''ml'', ''Malayalam''), (''mt'', ''Maltese''), (''mi'', ''Maori''),
     (''mr'', ''Marathi''), (''mn'', ''Mongolian''), (''my'', ''Myanmar (Burmese)''),
     (''ne'', ''Nepali''), (''no'', ''Norwegian''), (''ps'', ''Pashto''),
     (''fa'', ''Persian''), (''pl'', ''Polish''), (''pt'', ''Portuguese''),
     (''pa'', ''Punjabi''), (''ro'', ''Romanian''), (''ru'', ''Russian''),
     (''sm'', ''Samoan''), (''gd'', ''Scots Gaelic''), (''sr'', ''Serbian''),
     (''st'', ''Sesotho''), (''sn'', ''Shona''), (''sd'', ''Sindhi''), (''si'', ''Sinhala''),
     (''sk'', ''Slovak''), (''sl'', ''Slovenian''), (''so'', ''Somali''),
     (''es'', ''Spanish''), (''su'', ''Sundanese''), (''sw'', ''Swahili''),
     (''sv'', ''Swedish''), (''tg'', ''Tajik''), (''ta'', ''Tamil''), (''te'', ''Telugu''),
     (''th'', ''Thai''), (''tr'', ''Turkish''), (''uk'', ''Ukrainian''), (''ur'', ''Urdu''),
     (''uz'', ''Uzbek''), (''vi'', ''Vietnamese''), (''cy'', ''Welsh''), (''xh'', ''Xhosa''),
     (''yi'', ''Yiddish''), (''yo'', ''Yoruba''), (''zu'', ''Zulu'')]"

section \<open>The tweet pipeline\<close>

text \<open>
  The outcome of one invocation: the committed table afterwards, the number of rows
  inserted, the prompts sent to the text-generation service in order, and the messages
  logged as errors. An exception that leaves the function is \<open>Inl\<close>; it can only happen
  before the first commit, so the table is then as it was.
\<close>

record 'row run =
  store :: "'row list"
  inserted :: nat
  requests :: "string list"
  errors :: "log_error list"

definition unchanged :: "'row list \<Rightarrow> log_error list \<Rightarrow> 'row run" where
  "unchanged db errs = \<lparr>store = db, inserted = 0, requests = [], errors = errs\<rparr>"

text \<open>
  \<open>ScrapedTweet.query.filter_by(user_id=..., tweet_id=...).first()\<close> is not \<open>None\<close>.
  The rows a query sees are the committed ones and, with autoflush, those added to the
  session so far.
\<close>

definition tweet_exists :: "scraped_tweet list \<Rightarrow> int \<Rightarrow> string \<Rightarrow> bool" where
  "tweet_exists rows uid tid = list_ex (\<lambda>r. tweet_user_id r = uid \<and> tweet_id r = tid) rows"

definition visible :: "world \<Rightarrow> 'row list \<Rightarrow> 'row list \<Rightarrow> 'row list" where
  "visible w db pending = (if autoflush w then db @ pending else db)"

text \<open>
  The checks of the loop body of \<open>scrape_and_store_tweets_for_user\<close>, in its order:
  \<^verbatim>\<open>
      if _is_demo_item(t):
          demo += 1; continue
      if t.get("type") and t.get("type") != "tweet":
          non_tweet += 1; continue
      tweet_id = str(t.get("id", "") or "")
      raw_ts = _pick_timestamp_raw(t)
      dt_aware = _parse_timestamp(raw_ts) if raw_ts else None
      if not tweet_id or not dt_aware:
          missing += 1; continue
      if not (start_utc <= dt_aware < until_utc):
          out_of_window += 1; continue
      exists = ScrapedTweet.query.filter_by(user_id=user.id, tweet_id=tweet_id).first()
      if exists:
          duplicates += 1; continue
  \<close>
  Aware datetimes are compared as instants.
\<close>

datatype verdict = IsDemo | NonTweet | Missing | OutOfWindow | Duplicate | Keep string datetime

definition in_window :: "datetime \<Rightarrow> datetime \<Rightarrow> datetime \<Rightarrow> bool" where
  "in_window start_utc until_utc dt =
     (utc_instant start_utc \<le> utc_instant dt \<and> utc_instant dt < utc_instant until_utc)"

definition tweet_check ::
  "world \<Rightarrow> int \<Rightarrow> datetime \<Rightarrow> datetime \<Rightarrow> scraped_tweet list \<Rightarrow> item \<Rightarrow> py_error + verdict"
where
  "tweet_check w uid start_utc until_utc rows t =
     (if is_demo_item t then Inr IsDemo
      else if truthy (get t ''type'') \<and> get t ''type'' \<noteq> JStr ''tweet'' then Inr NonTweet
      else
        let tid = py_str w (py_or (get_default t ''id'' (JStr [])) (JStr [])) in
        err_bind (pick_timestamp_raw t) (\<lambda>raw_ts.
          case (if truthy raw_ts then parse_timestamp w raw_ts else None) of
            None \<Rightarrow> Inr Missing
          | Some dt_aware \<Rightarrow>
              if tid = [] then Inr Missing
              else if \<not> in_window start_utc until_utc dt_aware then Inr OutOfWindow
              else if tweet_exists rows uid tid then Inr Duplicate
              else Inr (Keep tid dt_aware)))"

text \<open>
  The record built for an accepted item:
  \<^verbatim>\<open>
      author_name, author_username = _extract_author(t)
      text = _extract_text(t)
      photo_url = _extract_photo_url(t)
      lang = t.get("lang", "")
      st = ScrapedTweet(tweet_id=tweet_id, user_id=user.id, text=text,
          full_text=t.get("fullText") or t.get("text") or "", lang=lang,
          retweet_count=t.get("retweetCount", 0), reply_count=t.get("replyCount", 0),
          like_count=t.get("likeCount", 0), quote_count=t.get("quoteCount", 0),
          created_at=dt_aware, author_name=author_name,
          author_username=author_username, photo_url=photo_url)
  \<close>
\<close>

definition make_tweet :: "int \<Rightarrow> item \<Rightarrow> string \<Rightarrow> datetime \<Rightarrow> py_error + scraped_tweet" where
  "make_tweet uid t tid dt_aware =
     err_bind (extract_author t) (\<lambda>author.
     err_bind (extract_text t) (\<lambda>txt.
     err_bind (extract_photo_url t) (\<lambda>photo.
       Inr \<lparr> tweet_id = tid,
             tweet_user_id = uid,
             tweet_text = txt,
             full_text = py_or (get t ''fullText'') (py_or (get t ''text'') (JStr [])),
             lang = get_default t ''lang'' (JStr []),
             retweet_count = get_default t ''retweetCount'' (JInt 0),
             reply_count = get_default t ''replyCount'' (JInt 0),
             like_count = get_default t ''likeCount'' (JInt 0),
             quote_count = get_default t ''quoteCount'' (JInt 0),
             created_at = dt_aware,
             author_name = fst author,
             author_username = snd author,
             photo_url = photo,
             chatgpt_title = None,
             chatgpt_output = None \<rparr>)))"

text \<open>The loop over the items: the rows added to the session and the five counters.\<close>

record filter_state =
  new_items :: "scraped_tweet list"
  demo :: nat
  missing :: nat
  out_of_window :: nat
  non_tweet :: nat
  duplicates :: nat

definition filter_state0 :: filter_state where
  "filter_state0 = \<lparr>new_items = [], demo = 0, missing = 0, out_of_window = 0,
                     non_tweet = 0, duplicates = 0\<rparr>"

definition tweet_step ::
  "world \<Rightarrow> int \<Rightarrow> datetime \<Rightarrow> datetime \<Rightarrow> scraped_tweet list \<Rightarrow> filter_state \<Rightarrow> item
     \<Rightarrow> py_error + filter_state"
where
  "tweet_step w uid start_utc until_utc db st t =
     err_bind (tweet_check w uid start_utc until_utc (visible w db (new_items st)) t) (\<lambda>v.
       case v of
         IsDemo \<Rightarrow> Inr (st\<lparr>demo := demo st + 1\<rparr>)
       | NonTweet \<Rightarrow> Inr (st\<lparr>non_tweet := non_tweet st + 1\<rparr>)
       | Missing \<Rightarrow> Inr (st\<lparr>missing := missing st + 1\<rparr>)
       | OutOfWindow \<Rightarrow> Inr (st\<lparr>out_of_window := out_of_window st + 1\<rparr>)
       | Duplicate \<Rightarrow> Inr (st\<lparr>duplicates := duplicates st + 1\<rparr>)
       | Keep tid dt_aware \<Rightarrow>
           err_bind (make_tweet uid t tid dt_aware) (\<lambda>row.
             Inr (st\<lparr>new_items := new_items st @ [row]\<rparr>)))"

fun tweet_loop ::
  "world \<Rightarrow> int \<Rightarrow> datetime \<Rightarrow> datetime \<Rightarrow> scraped_tweet list \<Rightarrow> filter_state \<Rightarrow> item list
     \<Rightarrow> py_error + filter_state"
where
  "tweet_loop w uid start_utc until_utc db st [] = Inr st"
| "tweet_loop w uid start_utc until_utc db st (t # ts) =
     (case tweet_step w uid start_utc until_utc db st t of
        Inl e \<Rightarrow> Inl e
      | Inr st' \<Rightarrow> tweet_loop w uid start_utc until_utc db st' ts)"

text \<open>
  \<^verbatim>\<open>
  def call_chatgpt(prompt: str) -> str:
      if not OPENAI_API_KEY:
          return "OpenAI API key not set."
      ...
      try:
          resp = requests.post(url, headers=headers, json=payload, timeout=60)
          data = resp.json()
          logger.info("OpenAI response: %s", data)
          if "choices" in data and data["choices"]:
              return data["choices"][0]["message"]["content"].strip()
          return "No response from ChatGPT."
      except Exception as e:
          logger.error("Error calling ChatGPT: %s", e)
          return f"Error calling ChatGPT: {e}"
  \<close>
  The result is the returned text, the prompts posted (none or one) and the errors logged;
  \<open>n\<close> numbers the request within the invocation.
\<close>

definition key_set :: "world \<Rightarrow> bool" where
  "key_set w = (case OPENAI_API_KEY w of None \<Rightarrow> False | Some k \<Rightarrow> k \<noteq> [])"

definition post_chat :: "world \<Rightarrow> nat \<Rightarrow> string \<Rightarrow> string \<times> string list \<times> log_error list" where
  "post_chat w n prompt =
     (case chat w n prompt of
        Raised e \<Rightarrow> (''Error calling ChatGPT: '' @ e, [prompt], [ErrCallingChatGPT e])
      | NoChoices \<Rightarrow> (''No response from ChatGPT.'', [prompt], [])
      | Content c \<Rightarrow> (py_strip c, [prompt], []))"

definition call_chatgpt :: "world \<Rightarrow> nat \<Rightarrow> string \<Rightarrow> string \<times> string list \<times> log_error list" where
  "call_chatgpt w n prompt =
     (if \<not> key_set w then (''OpenAI API key not set.'', [], [])
      else post_chat w n prompt)"

text \<open>
  \<^verbatim>\<open>
  def parse_chatgpt_response(response_text):
      if "Post Title:" in response_text:
          parts = response_text.split("Post Title:")
          summary = parts[0].strip()
          title = parts[1].strip()
          return title, summary
      else:
          return "Untitled", response_text
  \<close>
  A text that contains the marker splits into at least two parts (lemma
  \<open>split_contains\<close>), so the last case below is never taken.
\<close>

definition parse_chatgpt_response :: "string \<Rightarrow> string \<times> string" where
  "parse_chatgpt_response response_text =
     (if py_contains ''Post Title:'' response_text then
        (case py_split response_text ''Post Title:'' of
           p0 # p1 # ps \<Rightarrow> (py_strip p1, py_strip p0)
         | _ \<Rightarrow> (''Untitled'', response_text))
      else (''Untitled'', response_text))"

text \<open>
  The enrichment loop:
  \<^verbatim>\<open>
      user_lang_code = user.preferred_language or "en"
      lang_name = language_map.get(user_lang_code, "English")
      summarized = 0
      for st in new_items:
          author_name = st.author_name or "Unknown"
          tweet_text = st.text or st.full_text or ""
          prompt = ( ... )
          response = call_chatgpt(prompt)
          title, summary = parse_chatgpt_response(response)
          if title and summary:
              st.chatgpt_output = summary
              st.chatgpt_title = title
              summarized += 1
      db.session.commit()
  \<close>
\<close>

definition lang_name_of :: "string option \<Rightarrow> string" where
  "lang_name_of pref =
     (let code = (case pref of None \<Rightarrow> ''en'' | Some c \<Rightarrow> if c = [] then ''en'' else c)
      in case map_of language_map code of None \<Rightarrow> ''English'' | Some n \<Rightarrow> n)"

definition tweet_prompt :: "world \<Rightarrow> string \<Rightarrow> scraped_tweet \<Rightarrow> string" where
  "tweet_prompt w lang_name st =
     (let author = py_str w (py_or (author_name st) (JStr ''Unknown''));
          body = (if tweet_text st \<noteq> [] then tweet_text st
                  else py_str w (py_or (full_text st) (JStr [])))
      in ''You are ChatGPT-4. Below is a tweet in its original language. '' @
         ''Please translate and adjust it so that it is readable in '' @ lang_name @ ''. '' @
         ''Start by saying: 'In the latest tweet from ('' @ author @ '')...'. '' @
         ''Then provide a summary in two paragraphs or less, explaining the context or '' @
         ''importance of the tweet, '' @
         ''and finally repeat the original tweet as is. Please do it in '' @ lang_name @ ''. '' @
         ''At the end, on a new line, output the short title in the format: '' @
         '''Post Title: [Title]'.\<newline>\<newline>'' @
         ''Original Tweet: '' @ body)"

fun enrich_tweets ::
  "world \<Rightarrow> string \<Rightarrow> nat \<Rightarrow> scraped_tweet list
     \<Rightarrow> scraped_tweet list \<times> string list \<times> log_error list \<times> nat"
where
  "enrich_tweets w lang_name n [] = ([], [], [], 0)"
| "enrich_tweets w lang_name n (st # sts) =
     (let prompt = tweet_prompt w lang_name st;
          (response, reqs, errs) = call_chatgpt w n prompt;
          (title, summary) = parse_chatgpt_response response;
          written = (title \<noteq> [] \<and> summary \<noteq> []);
          st' = (if written then st\<lparr>chatgpt_output := Some summary, chatgpt_title := Some title\<rparr>
                 else st);
          (rows, reqs', errs', summarized) = enrich_tweets w lang_name (n + length reqs) sts
      in (st' # rows, reqs @ reqs', errs @ errs', (if written then 1 else 0) + summarized))"

text \<open>
  The part of \<open>scrape_and_store_tweets_for_user\<close> that follows the fetch: the filter loop,
  the first commit, and the enrichment with the second commit.
  \<^verbatim>\<open>
      if not items:
          return
      start_utc = datetime.combine(start_d, datetime.min.time(), tzinfo=timezone.utc)
      until_utc = datetime.combine(until_d, datetime.min.time(), tzinfo=timezone.utc)
      ...
      if not new_items:
          return
      db.session.commit()
      if not OPENAI_API_KEY:
          return
      ...
      db.session.commit()
  \<close>
\<close>

definition insert_and_enrich ::
  "world \<Rightarrow> user \<Rightarrow> scraped_tweet list \<Rightarrow> scraped_tweet list \<Rightarrow> scraped_tweet run"
where
  "insert_and_enrich w u db new =
     (if new = [] then unchanged db []
      else if \<not> key_set w then
        \<lparr>store = db @ new, inserted = length new, requests = [], errors = []\<rparr>
      else
        let (rows, reqs, errs, summarized) =
              enrich_tweets w (lang_name_of (preferred_language u)) 0 new
        in \<lparr>store = db @ rows, inserted = length new, requests = reqs, errors = errs\<rparr>)"

definition store_tweets ::
  "world \<Rightarrow> user \<Rightarrow> int \<Rightarrow> int \<Rightarrow> scraped_tweet list \<Rightarrow> item list
     \<Rightarrow> py_error + scraped_tweet run"
where
  "store_tweets w u start_d until_d db items =
     (if items = [] then Inr (unchanged db [])
      else
        case tweet_loop w (user_id u) (midnight_utc start_d) (midnight_utc until_d) db
               filter_state0 items of
          Inl e \<Rightarrow> Inl e
        | Inr st \<Rightarrow> Inr (insert_and_enrich w u db (new_items st)))"

text \<open>
  The whole function. The profile handles that normalise to the empty string are dropped;
  the window is \<open>[until_d - SINCE_DAYS, until_d)\<close> with \<open>until_d\<close> the day after
  \<open>date.today()\<close>; date arithmetic that leaves the calendar raises.
\<close>

fun valid_handles :: "world \<Rightarrow> string list \<Rightarrow> py_error + string list" where
  "valid_handles w [] = Inr []"
| "valid_handles w (h # hs) =
     err_bind (normalize_handle w h) (\<lambda>n.
     err_bind (valid_handles w hs) (\<lambda>rest.
       Inr (if n \<noteq> [] then h # rest else rest)))"

definition date_ok :: "int \<Rightarrow> bool" where
  "date_ok d = (0 \<le> d \<and> d < 3652059)"

definition scrape_and_store_tweets_for_user ::
  "world \<Rightarrow> user \<Rightarrow> scraped_tweet list \<Rightarrow> py_error + scraped_tweet run"
where
  "scrape_and_store_tweets_for_user w u db =
     err_bind (valid_handles w
                 (concat (map (\<lambda>p. case p of None \<Rightarrow> [] | Some h \<Rightarrow> if h = [] then [] else [h])
                            (twitter_handles u)))) (\<lambda>handles.
       if handles = [] then Inr (unchanged db [])
       else
         let until_d = today_local w + 1;
             start_d = until_d - SINCE_DAYS w
         in if \<not> date_ok until_d \<or> \<not> date_ok start_d then Inl OverflowError
            else case tweet_actor w of
                   CallRaised e \<Rightarrow> Inr (unchanged db [ErrCallingApify e])
                 | NoDatasetId \<Rightarrow> Inr (unchanged db [ErrNoDatasetId])
                 | DatasetRaised \<Rightarrow> Inl RemoteError
                 | Dataset items \<Rightarrow> store_tweets w u start_d until_d db items)"

section \<open>The Facebook pipeline\<close>

text \<open>
  The text column \<open>post_id\<close> receives whatever value the item holds, not its \<open>str()\<close>:
  a string is kept as it is, any other value becomes the text the database gives it. The
  lookup before the insert asks for \<open>str()\<close> of the value:
  \<open>ScrapedFBPost.query.filter_by(user_id=..., post_id=post_id).first()\<close> finds a row when the
  text held in the column is the text asked for. A row whose \<open>post_id\<close> is null violates
  the column's \<open>nullable=False\<close> at commit.
\<close>

definition stored_text :: "world \<Rightarrow> json \<Rightarrow> string" where
  "stored_text w v = (case v of JStr s \<Rightarrow> s | _ \<Rightarrow> column_text w v)"

definition fb_post_exists :: "world \<Rightarrow> scraped_fb_post list \<Rightarrow> int \<Rightarrow> string \<Rightarrow> bool" where
  "fb_post_exists w rows uid pid =
     list_ex (\<lambda>r. post_user_id r = uid \<and> stored_text w (post_id r) = pid) rows"

text \<open>\<open>v.get(k, default)\<close> on a value that may not be a dict.\<close>

definition attr_get_default :: "json \<Rightarrow> string \<Rightarrow> json \<Rightarrow> py_error + json" where
  "attr_get_default v k dflt =
     (case v of JObj d \<Rightarrow> Inr (get_default d k dflt) | _ \<Rightarrow> Inl AttributeError)"

text \<open>
  The loop that selects the new items:
  \<^verbatim>\<open>
      today_date = datetime.utcnow().date()
      new_items = []
      for t in items:
          post_id = str(t.get('postId', t.get('id', '')))
          post_time_str = t.get("time", "")
          if post_id and post_time_str:
              try:
                  dt = parser.parse(post_time_str).date()
              except Exception as e:
                  logging.error(f"Error parsing Facebook post time '{post_time_str}': {e}")
                  continue
              # Only store posts from today
              if dt != today_date:
                  continue
              existing = ScrapedFBPost.query.filter_by(user_id=user.id, post_id=post_id).first()
              if not existing:
                  new_items.append(t)
  \<close>
  \<open>parser.parse\<close> raises on a value that is not a string. Nothing is added to the session
  inside this loop, so the lookup sees the committed rows only.
\<close>

datatype fb_verdict = FbSkip | FbParseError | FbOtherDay | FbExisting | FbNew

definition fb_parse_time :: "world \<Rightarrow> json \<Rightarrow> datetime option" where
  "fb_parse_time w v = (case v of JStr s \<Rightarrow> dateutil_parse w s | _ \<Rightarrow> None)"

definition fb_check :: "world \<Rightarrow> int \<Rightarrow> scraped_fb_post list \<Rightarrow> item \<Rightarrow> fb_verdict" where
  "fb_check w uid db t =
     (let pid = py_str w (get_default t ''postId'' (get_default t ''id'' (JStr [])));
          post_time_str = get_default t ''time'' (JStr [])
      in if pid \<noteq> [] \<and> truthy post_time_str then
           (case fb_parse_time w post_time_str of
              None \<Rightarrow> FbParseError
            | Some dt \<Rightarrow>
                if date_of dt \<noteq> today_utc w then FbOtherDay
                else if fb_post_exists w db uid pid then FbExisting
                else FbNew)
         else FbSkip)"

definition fb_new_items :: "world \<Rightarrow> int \<Rightarrow> scraped_fb_post list \<Rightarrow> item list \<Rightarrow> item list" where
  "fb_new_items w uid db items = filter (\<lambda>t. fb_check w uid db t = FbNew) items"

definition fb_time_errors ::
  "world \<Rightarrow> int \<Rightarrow> scraped_fb_post list \<Rightarrow> item list \<Rightarrow> log_error list" where
  "fb_time_errors w uid db items =
     map (\<lambda>t. ErrParsingTime (get_default t ''time'' (JStr [])))
       (filter (\<lambda>t. fb_check w uid db t = FbParseError) items)"

text \<open>
  The record built for a new item:
  \<^verbatim>\<open>
      thumbnail = ""
      media = t.get("media", [])
      if isinstance(media, list) and len(media) > 0:
          thumbnail = media[0].get("thumbnail", "")
      page_name_val = t.get("pageName", "")
      if isinstance(page_name_val, dict):
          page_name_val = page_name_val.get("name", "")
      processed_data.append({
          "post_id": t.get("postId", t.get("id", "")),
          "page_name": page_name_val,
          "post_url": t.get("url", ""),
          "post_text": t.get("text", ""),
          "time_of_posting": t.get("time", ""),
          "number_of_likes": t.get("likes", 0),
          "number_of_comments": t.get("comments", 0),
          "number_of_shares": t.get("shares", 0),
          "first_post_picture": thumbnail,
          "profile_picture": t.get("user", {}).get("profilePic", ""),
          "posttitle": "",
          "chatgpt_output": ""
      })
  \<close>
\<close>

definition fb_process :: "int \<Rightarrow> item \<Rightarrow> py_error + scraped_fb_post" where
  "fb_process uid t =
     err_bind (case get_default t ''media'' (JArr []) of
                 JArr (m # ms) \<Rightarrow> attr_get_default m ''thumbnail'' (JStr [])
               | _ \<Rightarrow> Inr (JStr [])) (\<lambda>thumbnail.
     err_bind (attr_get_default (get_default t ''user'' (JObj [])) ''profilePic'' (JStr []))
       (\<lambda>pic.
       Inr \<lparr> post_id = get_default t ''postId'' (get_default t ''id'' (JStr [])),
             post_user_id = uid,
             page_name = (case get_default t ''pageName'' (JStr []) of
                            JObj d \<Rightarrow> get_default d ''name'' (JStr [])
                          | v \<Rightarrow> v),
             post_url = get_default t ''url'' (JStr []),
             post_text = get_default t ''text'' (JStr []),
             time_of_posting = get_default t ''time'' (JStr []),
             number_of_likes = get_default t ''likes'' (JInt 0),
             number_of_comments = get_default t ''comments'' (JInt 0),
             number_of_shares = get_default t ''shares'' (JInt 0),
             first_post_picture = thumbnail,
             profile_picture = pic,
             posttitle = Some [],
             post_chatgpt_output = Some [] \<rparr>))"

fun fb_process_all :: "int \<Rightarrow> item list \<Rightarrow> py_error + scraped_fb_post list" where
  "fb_process_all uid [] = Inr []"
| "fb_process_all uid (t # ts) =
     (case fb_process uid t of
        Inl e \<Rightarrow> Inl e
      | Inr row \<Rightarrow>
          (case fb_process_all uid ts of
             Inl e \<Rightarrow> Inl e
           | Inr rows \<Rightarrow> Inr (row # rows)))"

text \<open>
  \<^verbatim>\<open>
  def parse_chatgpt_response(response_text):
      try:
          parts = response_text.split("Title:")
          if len(parts) < 2:
              return "Untitled", response_text
          after_title = parts[1]
          title_line, rest = after_title.split("\n", 1)
          article_parts = rest.split("Original Post:")
          article_summary = article_parts[0].replace("Article:", "").strip()
          return title_line.strip(), article_summary
      except Exception as e:
          logging.error(f"Error parsing ChatGPT response: {e}")
          return "Untitled", response_text
  \<close>
  Unpacking \<open>after_title.split("\n", 1)\<close> raises when there is no newline.
\<close>

definition fb_parse_chatgpt_response :: "string \<Rightarrow> (string \<times> string) \<times> log_error list" where
  "fb_parse_chatgpt_response response_text =
     (case py_split response_text ''Title:'' of
        p0 # after_title # ps \<Rightarrow>
          if CHR 0x0A \<in> set after_title then
            let title_line = takeWhile (\<lambda>c. c \<noteq> CHR 0x0A) after_title;
                rest = drop 1 (dropWhile (\<lambda>c. c \<noteq> CHR 0x0A) after_title)
            in (case py_split rest ''Original Post:'' of
                  a # as \<Rightarrow> ((py_strip title_line, py_strip (py_replace a ''Article:'' [])), [])
                | [] \<Rightarrow> ((''Untitled'', response_text), [ErrParsingChatGPT]))
          else ((''Untitled'', response_text), [ErrParsingChatGPT])
      | _ \<Rightarrow> ((''Untitled'', response_text), []))"

text \<open>
  The enrichment loop. This module's \<open>call_chatgpt\<close> has no test of the credential: it
  posts the request in every case.
  \<^verbatim>\<open>
      user_lang_code = user.preferred_language_facebook or "en"
      fb_lang = language_map.get(user_lang_code, "English")
      for data in processed_data:
          fb_post = ScrapedFBPost.query.filter_by(user_id=user.id,
                                                 post_id=data["post_id"]).first()
          if fb_post:
              page_name = fb_post.page_name if fb_post.page_name else \
                          (user.name if user.name else user.email)
              prompt = ( ... )
              response = call_chatgpt(prompt)
              title, summary = parse_chatgpt_response(response)
              fb_post.chatgpt_output = summary
              fb_post.posttitle = title
      db.session.commit()
  \<close>
  \<open>first()\<close> is taken to return the oldest matching row. The lookup in this loop passes
  \<open>data["post_id"]\<close>, the value as stored: it is compared as the text it is stored as.
\<close>

definition dq :: string where
  "dq = [CHR 0x22]"

definition bs :: string where
  "bs = [CHR 0x5C]"

definition fb_prompt :: "string \<Rightarrow> string \<Rightarrow> string \<Rightarrow> string" where
  "fb_prompt page fb_lang body =

       ''You are ChatGPT-4. Below is a Facebook post in its original language.\<newline>\<newline>'' @
       ''Requirements:\<newline>'' @ ''1) Begin the response with: '' @ dq @
       ''Latest Facebook post from '' @ bs @ dq @ page @ bs @ dq @ dq @ ''\<newline>'' @
       ''2) Create an expanded article in '' @ fb_lang @
       '' with a short title and a summary consisting of 3-5 sentences.\<newline>'' @
       ''3) The title must include the Facebook page name (e.g., '' @ dq @ page @ '': [topic]'' @
       dq @ '').\<newline>'' @ ''4) Under the header '' @ dq @ ''Article:'' @ dq @
       '', summarize the main content of the post including key details.\<newline>'' @
       ''5) Use a formal and informative tone that emphasizes the significance or context of the post.\<newline>'' @
       ''6) Finally, add a section '' @ dq @ ''Original Post:'' @ dq @
       '' and include the full original post enclosed in quotes.\<newline>\<newline>'' @
       ''Format your response exactly as follows:\<newline>\<newline>'' @
       ''Latest Facebook post from '' @ dq @ page @ dq @ ''\<newline>\<newline>'' @
       ''Title: [Your generated title]\<newline>\<newline>'' @
       ''Article:\<newline>[Your 3-5 sentence summary]\<newline>\<newline>'' @
       ''Original Post:\<newline>'' @ dq @ body @ dq"

definition fb_page_name :: "world \<Rightarrow> user \<Rightarrow> scraped_fb_post \<Rightarrow> string" where
  "fb_page_name w u fb_post =
     (if truthy (page_name fb_post) then py_str w (page_name fb_post)
      else case user_name u of
             None \<Rightarrow> email u
           | Some n \<Rightarrow> if n \<noteq> [] then n else email u)"

definition fb_matches :: "world \<Rightarrow> int \<Rightarrow> json \<Rightarrow> scraped_fb_post \<Rightarrow> bool" where
  "fb_matches w uid pid r =
     (post_user_id r = uid \<and> stored_text w (post_id r) = stored_text w pid)"

fun update_first :: "('a \<Rightarrow> bool) \<Rightarrow> ('a \<Rightarrow> 'a) \<Rightarrow> 'a list \<Rightarrow> 'a list" where
  "update_first P f [] = []"
| "update_first P f (x # xs) = (if P x then f x # xs else x # update_first P f xs)"

fun fb_enrich ::
  "world \<Rightarrow> user \<Rightarrow> string \<Rightarrow> nat \<Rightarrow> scraped_fb_post list \<Rightarrow> scraped_fb_post list
     \<Rightarrow> scraped_fb_post list \<times> string list \<times> log_error list"
where
  "fb_enrich w u fb_lang n tbl [] = (tbl, [], [])"
| "fb_enrich w u fb_lang n tbl (d # ds) =
     (case find (fb_matches w (user_id u) (post_id d)) tbl of
        None \<Rightarrow> fb_enrich w u fb_lang n tbl ds
      | Some fb_post \<Rightarrow>
          let prompt = fb_prompt (fb_page_name w u fb_post) fb_lang
                         (py_str w (py_or (post_text fb_post) (JStr [])));
              (response, reqs, errs) = post_chat w n prompt;
              ((title, summary), perrs) = fb_parse_chatgpt_response response;
              tbl' = update_first (fb_matches w (user_id u) (post_id d))
                       (\<lambda>r. r\<lparr>post_chatgpt_output := Some summary, posttitle := Some title\<rparr>) tbl;
              (tbl'', reqs', errs') = fb_enrich w u fb_lang (n + 1) tbl' ds
          in (tbl'', reqs @ reqs', errs @ perrs @ errs'))"

text \<open>The part of \<open>scrape_and_store_fb_posts_for_user\<close> that follows the fetch.\<close>

definition fb_insert_and_enrich ::
  "world \<Rightarrow> user \<Rightarrow> scraped_fb_post list \<Rightarrow> log_error list \<Rightarrow> item list
     \<Rightarrow> py_error + scraped_fb_post run"
where
  "fb_insert_and_enrich w u db terrs new =
     (if new = [] then Inr (unchanged db terrs)
      else
        case fb_process_all (user_id u) new of
          Inl e \<Rightarrow> Inl e
        | Inr rows \<Rightarrow>
            if list_ex (\<lambda>r. post_id r = JNull) rows then Inl IntegrityError
            else
              let (tbl, reqs, errs) =
                    fb_enrich w u (lang_name_of (preferred_language_facebook u)) 0
                      (db @ rows) rows
              in Inr \<lparr>store = tbl, inserted = length rows, requests = reqs,
                      errors = terrs @ errs\<rparr>)"

definition store_fb_posts ::
  "world \<Rightarrow> user \<Rightarrow> scraped_fb_post list \<Rightarrow> item list \<Rightarrow> py_error + scraped_fb_post run"
where
  "store_fb_posts w u db items =
     (if items = [] then Inr (unchanged db [])
      else fb_insert_and_enrich w u db (fb_time_errors w (user_id u) db items)
             (fb_new_items w (user_id u) db items))"

definition scrape_and_store_fb_posts_for_user ::
  "world \<Rightarrow> user \<Rightarrow> scraped_fb_post list \<Rightarrow> py_error + scraped_fb_post run"
where
  "scrape_and_store_fb_posts_for_user w u db =
     (if concat (map (\<lambda>p. case p of None \<Rightarrow> [] | Some url \<Rightarrow> if url = [] then [] else [url])
                   (facebook_pages u)) = []
      then Inr (unchanged db [])
      else case fb_actor w of
             CallRaised e \<Rightarrow> Inr (unchanged db [ErrCallingApify e])
           | NoDatasetId \<Rightarrow> Inr (unchanged db [ErrNoDatasetId])
           | DatasetRaised \<Rightarrow> Inl RemoteError
           | Dataset items \<Rightarrow> store_fb_posts w u db items)"

section \<open>A sample world\<close>

text \<open>
  One concrete world, for evaluating the definitions: a machine one hour east of UTC on
  2024-01-10 (day 738894), no credential for the text-generation service, which answers
  without choices; \<open>urlparse\<close> restricted to URLs of the host \<open>service\<close>; parsers that
  know the timestamps listed; a database that stores \<open>true\<close> as \<open>1\<close> and an integer as its
  digits.
\<close>

definition hour_us :: int where
  "hour_us = 3600000000"

definition world0 :: world where
  "world0 = \<lparr>
     urlparse_path = (\<lambda>u. if startswith u ''https://service'' then Some (drop 15 u) else Some u),
     fromisoformat = map_of
       [(''2024-01-10T09:00:00'', \<lparr>wall = 738894 * day_us + 9 * hour_us, tzoff = None\<rparr>),
        (''2024-01-10T09:00:00+00:00'', \<lparr>wall = 738894 * day_us + 9 * hour_us, tzoff = Some 0\<rparr>),
        (''2024-01-10T00:00:00+00:00'', \<lparr>wall = 738894 * day_us, tzoff = Some 0\<rparr>),
        (''2024-01-11T00:00:00+00:00'', \<lparr>wall = 738895 * day_us, tzoff = Some 0\<rparr>)],
     dateutil_parse = map_of
       [(''2024-01-10T09:00:00.000Z'', \<lparr>wall = 738894 * day_us + 9 * hour_us, tzoff = Some 0\<rparr>),
        (''2024-01-10T23:30:00-05:00'',
           \<lparr>wall = 738894 * day_us + 23 * hour_us + 1800000000, tzoff = Some (- 5 * hour_us)\<rparr>)],
     local_utcoffset = (\<lambda>t. Some hour_us),
     py_repr = (\<lambda>v. ''<container>''),
     column_text = (\<lambda>v. case v of
                      JBool b \<Rightarrow> (if b then ''1'' else ''0'')
                    | JInt i \<Rightarrow> (if i < 0 then CHR ''-'' # digits (nat (- i)) else digits (nat i))
                    | _ \<Rightarrow> ''<value>''),
     today_local = 738894,
     today_utc = 738894,
     SINCE_DAYS = 7,
     OPENAI_API_KEY = None,
     autoflush = True,
     tweet_actor = NoDatasetId,
     fb_actor = NoDatasetId,
     chat = (\<lambda>n p. NoChoices) \<rparr>"

definition user0 :: user where
  "user0 = \<lparr> user_id = 1, email = ''ann@example.org'', user_name = Some ''Ann'',
             preferred_language = Some ''de'', preferred_language_facebook = None,
             twitter_handles = [Some ''@user''], facebook_pages = [Some ''https://service/page''] \<rparr>"

text \<open>
  Sample items: the two tweets of the scenario with the window 2024-01-10 to 2024-01-11, a
  demo row, and two Facebook posts, one of them stamped with an offset of five hours
  west.
\<close>

definition tweet_A :: item where
  "tweet_A = [(''id'', JStr ''A''), (''createdAt'', JStr ''2024-01-10T09:00:00Z''),
              (''text'', JStr ''hello'')]"

definition tweet_B :: item where
  "tweet_B = [(''id'', JStr ''B''), (''createdAt'', JStr ''2024-01-11T00:00:00Z'')]"

definition tweet_D :: item where
  "tweet_D = [(''id'', JStr ''D''), (''createdAt'', JStr ''2024-01-10T00:00:00Z'')]"

definition demo_row :: item where
  "demo_row = [(''demo'', JBool True)]"

definition fb_post_P :: item where
  "fb_post_P = [(''postId'', JStr ''p1''), (''time'', JStr ''2024-01-10T09:00:00.000Z''),
                (''text'', JStr ''hello'')]"

definition fb_post_Q :: item where
  "fb_post_Q = [(''postId'', JStr ''q1''), (''time'', JStr ''2024-01-10T23:30:00-05:00'')]"

text \<open>
  A second world: a credential is configured; the first request to the text-generation
  service times out, the second is answered with an error body that has no choices, and
  every later one is answered with a summary. \<open>tweet_row_A\<close> and \<open>tweet_row_B\<close> are the
  rows the mapper builds for \<open>tweet_A\<close> and \<open>tweet_B\<close>.
\<close>

definition world1 :: world where
  "world1 = world0\<lparr> OPENAI_API_KEY := Some ''sk-test'',
                     chat := (\<lambda>n p. if n = 0 then Raised ''timeout''
                                     else if n = 1 then NoChoices
                                     else Content ''Kurzfassung. Post Title: Gruss'') \<rparr>"

definition tweet_E :: item where
  "tweet_E = [(''id'', JStr ''E''), (''createdAt'', JStr ''2024-01-10T09:00:00Z''),
              (''text'', JStr ''moin'')]"

definition tweet_C :: item where
  "tweet_C = [(''id'', JStr ''C''), (''createdAt'', JStr ''2024-01-10T09:00:00Z''),
              (''text'', JStr ''servus'')]"

definition tweet_row_A :: scraped_tweet where
  "tweet_row_A =
     \<lparr> tweet_id = ''A'', tweet_user_id = 1, tweet_text = ''hello'', full_text = JStr ''hello'',
       lang = JStr [], retweet_count = JInt 0, reply_count = JInt 0, like_count = JInt 0,
       quote_count = JInt 0,
       created_at = \<lparr>wall = 738894 * day_us + 9 * hour_us, tzoff = Some 0\<rparr>,
       author_name = JStr [], author_username = JStr [], photo_url = JStr [],
       chatgpt_title = None, chatgpt_output = None \<rparr>"

definition tweet_row_B :: scraped_tweet where
  "tweet_row_B =
     \<lparr> tweet_id = ''B'', tweet_user_id = 1, tweet_text = [], full_text = JStr [],
       lang = JStr [], retweet_count = JInt 0, reply_count = JInt 0, like_count = JInt 0,
       quote_count = JInt 0,
       created_at = \<lparr>wall = 738895 * day_us, tzoff = Some 0\<rparr>,
       author_name = JStr [], author_username = JStr [], photo_url = JStr [],
       chatgpt_title = None, chatgpt_output = None \<rparr>"

text \<open>
  Two consecutive days of the same installation: on both the actor returns the dataset
  \<open>tweet_A\<close>, \<open>tweet_B\<close>; the clock reads 2024-01-10 in \<open>world_day1\<close> and 2024-01-11 in
  \<open>world_day2\<close>.
\<close>

definition world_day1 :: world where
  "world_day1 = world0\<lparr> tweet_actor := Dataset [tweet_A, tweet_B] \<rparr>"

definition world_day2 :: world where
  "world_day2 = world_day1\<lparr> today_local := 738895, today_utc := 738895 \<rparr>"

text \<open>
  \<open>fb_row_P\<close> is the row of \<open>fb_post_P\<close> after an invocation in \<open>world0\<close>; \<open>fb_post_T\<close> is
  a post whose id is the JSON value \<open>true\<close>, \<open>fb_row_T\<close> its row.
\<close>

definition fb_post_T :: item where
  "fb_post_T = [(''postId'', JBool True), (''time'', JStr ''2024-01-10T09:00:00.000Z'')]"

definition fb_row_T :: scraped_fb_post where
  "fb_row_T =
     \<lparr> post_id = JBool True, post_user_id = 1, page_name = JStr [], post_url = JStr [],
       post_text = JStr [], time_of_posting = JStr ''2024-01-10T09:00:00.000Z'',
       number_of_likes = JInt 0, number_of_comments = JInt 0, number_of_shares = JInt 0,
       first_post_picture = JStr [], profile_picture = JStr [],
       posttitle = Some ''Untitled'',
       post_chatgpt_output = Some ''No response from ChatGPT.'' \<rparr>"


definition fb_row_P :: scraped_fb_post where
  "fb_row_P =
     \<lparr> post_id = JStr ''p1'', post_user_id = 1, page_name = JStr [], post_url = JStr [],
       post_text = JStr ''hello'', time_of_posting = JStr ''2024-01-10T09:00:00.000Z'',
       number_of_likes = JInt 0, number_of_comments = JInt 0, number_of_shares = JInt 0,
       first_post_picture = JStr [], profile_picture = JStr [],
       posttitle = Some ''Untitled'',
       post_chatgpt_output = Some ''No response from ChatGPT.'' \<rparr>"

section \<open>Properties\<close>

lemma py_in_keys: "py_in k d = (k \<in> keys d)"
  by (simp add: py_in_def keys_def map_of_eq_None_iff)

text \<open>
  C10. The demo-item predicate is a pure key-set test: it holds exactly when the key set
  of the item is \<open>{demo}\<close> or \<open>{demo, type}\<close>; the conjunct about the keys
  \<open>id\<close>, \<open>text\<close> and \<open>fullText\<close> never changes the result.
\<close>

theorem is_demo_item_keyset:
  "is_demo_item item = (keys item = {''demo''} \<or> keys item = {''demo'', ''type''})"
proof -
  have "\<not> list_ex (\<lambda>k. py_in k item) [''id'', ''text'', ''fullText'']"
    if "keys item = {''demo'', ''type''}"
    using that by (simp add: py_in_keys)
  then show ?thesis
    unfolding is_demo_item_def Let_def by blast
qed

theorem is_demo_item_keyset_witness:
  "is_demo_item [(''demo'', JBool True)]
   \<and> is_demo_item [(''demo'', JBool True), (''type'', JStr ''mock_tweet'')]"
  using is_demo_item_keyset [of "[(''demo'', JBool True)]"]
        is_demo_item_keyset [of "[(''demo'', JBool True), (''type'', JStr ''mock_tweet'')]"]
  by (simp add: keys_def)

subsection \<open>Handle normalisation\<close>

lemma lstrip_at_idem: "lstrip_at (lstrip_at s) = lstrip_at s"
  by (simp add: lstrip_at_def lstrip_by_def dropWhile_idem)

lemma normalize_handle_no_at:
  "normalize_handle w h = Inr r \<Longrightarrow> lstrip_at r = r"
  by (auto simp add: normalize_handle_def Let_def lstrip_at_idem lstrip_at_def lstrip_by_def
      split: if_splits option.splits)

text \<open>
  C4, as amended. Provided \<open>urlparse\<close> gives the path \<open>/user\<close> for
  \<open>https://service/user\<close>, the three reference shapes \<open>@user\<close>,
  \<open>https://service/user\<close> and \<open>user\<close> all normalise to \<open>user\<close>. In general, with
  surrounding whitespace removed first: an input starting with \<open>http\<close> yields the first
  segment of the slash-trimmed URL path with all leading \<open>@\<close> removed, and any other
  input yields the trimmed input with all leading \<open>@\<close> removed.
\<close>

theorem normalize_handle_rule:
  assumes "urlparse_path w ''https://service/user'' = Some ''/user''"
  shows "normalize_handle w ''@user'' = Inr ''user''
       \<and> normalize_handle w ''https://service/user'' = Inr ''user''
       \<and> normalize_handle w ''user'' = Inr ''user''
       \<and> (\<forall>h p. h \<noteq> [] \<and> startswith (py_strip h) ''http''
                 \<and> urlparse_path w (py_strip h) = Some p
              \<longrightarrow> normalize_handle w h = Inr (lstrip_at (first_segment (strip_slash p))))
       \<and> (\<forall>h. \<not> startswith (py_strip h) ''http''
              \<longrightarrow> normalize_handle w h = Inr (lstrip_at (py_strip h)))"
proof -
  have strip_user: "py_strip ''@user'' = ''@user''" "py_strip ''user'' = ''user''"
      "py_strip ''https://service/user'' = ''https://service/user''"
    by (simp_all add: py_strip_def strip_by_def lstrip_by_def rstrip_by_def is_space_def
        whitespace_def)
  have a: "normalize_handle w ''@user'' = Inr ''user''"
    by (simp add: normalize_handle_def strip_user startswith_def lstrip_at_def lstrip_by_def)
  have b: "normalize_handle w ''https://service/user'' = Inr ''user''"
    using assms
    by (simp add: normalize_handle_def strip_user startswith_def lstrip_at_def lstrip_by_def
        strip_slash_def strip_by_def rstrip_by_def first_segment_def)
  have c: "normalize_handle w ''user'' = Inr ''user''"
    by (simp add: normalize_handle_def strip_user startswith_def lstrip_at_def lstrip_by_def)
  have d: "normalize_handle w h = Inr (lstrip_at (first_segment (strip_slash p)))"
    if "h \<noteq> []" "startswith (py_strip h) ''http''" "urlparse_path w (py_strip h) = Some p"
    for h p
    using that by (simp add: normalize_handle_def Let_def first_segment_def)
  have e: "normalize_handle w h = Inr (lstrip_at (py_strip h))"
    if "\<not> startswith (py_strip h) ''http''" for h
    using that
    by (simp add: normalize_handle_def Let_def py_strip_def strip_by_def lstrip_by_def
        rstrip_by_def lstrip_at_def)
  from a b c d e show ?thesis by blast
qed

theorem normalize_handle_rule_witness:
  "urlparse_path world0 ''https://service/user'' = Some ''/user''
   \<and> normalize_handle world0 ''https://service/user'' = Inr ''user''
   \<and> normalize_handle world0 ''@user'' = Inr ''user''
   \<and> normalize_handle world0 ''user'' = Inr ''user''"
proof -
  have h: "urlparse_path world0 ''https://service/user'' = Some ''/user''"
    by (simp add: world0_def startswith_def)
  from normalize_handle_rule [OF h] h show ?thesis by blast
qed

text \<open>
  C4 as stated fails: on \<open>@@user\<close> the claim's rule (one leading \<open>@\<close> stripped) gives
  \<open>@user\<close>, the code gives \<open>user\<close>.
\<close>

theorem normalize_handle_single_at_counterexample:
  "normalize_handle world0 ''@@user'' = Inr ''user''
   \<and> normalize_handle world0 ''@@user'' \<noteq> Inr ''@user''"
  by (simp add: normalize_handle_def py_strip_def strip_by_def lstrip_by_def rstrip_by_def
      is_space_def whitespace_def startswith_def lstrip_at_def)

text \<open>
  C9, as amended. Whenever the normaliser returns \<open>r\<close> and \<open>r\<close> has no whitespace at
  either end and does not start with \<open>http\<close>, normalising \<open>r\<close> again returns \<open>r\<close>.
\<close>

theorem normalize_handle_idem:
  assumes "normalize_handle w h = Inr r" and "py_strip r = r" and "\<not> startswith r ''http''"
  shows "normalize_handle w r = Inr r"
proof -
  have "lstrip_at r = r" using assms(1) by (rule normalize_handle_no_at)
  then show ?thesis
    using assms(2,3) by (simp add: normalize_handle_def Let_def)
qed

theorem normalize_handle_idem_witness:
  "normalize_handle world0 ''https://service/user'' = Inr ''user''
   \<and> py_strip ''user'' = ''user'' \<and> \<not> startswith ''user'' ''http''
   \<and> normalize_handle world0 ''user'' = Inr ''user''"
proof -
  have a: "normalize_handle world0 ''https://service/user'' = Inr ''user''" by code_simp
  have b: "py_strip ''user'' = ''user''" by code_simp
  have c: "\<not> startswith ''user'' ''http''" by code_simp
  from normalize_handle_idem [OF a b c] a b c show ?thesis by blast
qed

text \<open>
  C9 as stated fails: \<open>@ user\<close> normalises to \<open>user\<close> preceded by a blank, and that
  output normalises to \<open>user\<close>.
\<close>

theorem normalize_handle_idem_counterexample:
  "normalize_handle world0 ''@ user'' = Inr '' user''
   \<and> normalize_handle world0 '' user'' = Inr ''user''
   \<and> '' user'' \<noteq> ''user''"
  by code_simp

subsection \<open>Timestamp normalisation\<close>

lemma astimezone_utc_aware: "astimezone_utc w d = Some d' \<Longrightarrow> tzoff d' = Some 0"
  by (auto simp add: astimezone_utc_def Let_def split: option.splits if_splits)

lemma parse_timestamp_order:
  "parse_timestamp w (JStr s) =
     (if s = [] then None
      else case iso_attempt w s of Some d \<Rightarrow> Some d | None \<Rightarrow> dateutil_attempt w s)"
  by (simp add: parse_timestamp_def)

lemma parse_timestamp_aware: "parse_timestamp w v = Some d \<Longrightarrow> tzoff d = Some 0"
  by (auto simp add: parse_timestamp_def iso_attempt_def dateutil_attempt_def
      dest: astimezone_utc_aware split: json.splits option.splits if_splits)

text \<open>
  C3 at the failing input. On a machine one hour east of UTC the naive ISO string
  \<open>2024-01-10T09:00:00\<close> is parsed by \<open>fromisoformat\<close> as a value without offset and then
  converted by \<open>astimezone\<close> from the system time zone: the result is 08:00 UTC, not the
  09:00 UTC that reading the value as UTC gives.
\<close>

theorem parse_timestamp_naive_iso_local:
  "fromisoformat world0 ''2024-01-10T09:00:00''
     = Some \<lparr>wall = 738894 * day_us + 9 * hour_us, tzoff = None\<rparr>
   \<and> parse_timestamp world0 (JStr ''2024-01-10T09:00:00'')
     = Some \<lparr>wall = 738894 * day_us + 8 * hour_us, tzoff = Some 0\<rparr>"
  by (simp add: parse_timestamp_def iso_attempt_def astimezone_utc_def world0_def
      py_replace_def py_split_def startswith_def day_us_def max_us_def hour_us_def)

subsection \<open>The filter loops\<close>

lemma err_bind_simps [simp]:
  "err_bind (Inl e) f = Inl e" "err_bind (Inr x) f = f x"
  by (simp_all add: err_bind_def)

lemma tweet_check_demo: "is_demo_item t \<Longrightarrow> tweet_check w uid s e rows t = Inr IsDemo"
  by (simp add: tweet_check_def)

lemma demo_keys_is_demo:
  assumes "keys t = {''demo''} \<or> keys t = {''demo'', ''type''}"
  shows "is_demo_item t"
proof -
  have "\<not> list_ex (\<lambda>k. py_in k t) [''id'', ''text'', ''fullText'']"
    if "keys t = {''demo'', ''type''}"
    using that by (simp add: py_in_keys)
  with assms show ?thesis
    unfolding is_demo_item_def Let_def by blast
qed

lemma get_default_absent: "k \<notin> keys t \<Longrightarrow> get_default t k d = d"
  by (simp add: get_default_def keys_def map_of_eq_None_iff[THEN iffD2])

lemma fb_check_demo:
  assumes "keys t = {''demo''} \<or> keys t = {''demo'', ''type''}"
  shows "fb_check w uid db t = FbSkip"
proof -
  have "''postId'' \<notin> keys t" "''id'' \<notin> keys t"
    using assms by (elim disjE; simp)+
  then have "get_default t ''postId'' (get_default t ''id'' (JStr [])) = JStr []"
    by (simp add: get_default_absent)
  then show ?thesis by (simp add: fb_check_def py_str_def)
qed

lemma tweet_loop_append:
  "tweet_loop w uid s e db st (xs @ ys) =
     (case tweet_loop w uid s e db st xs of
        Inl err \<Rightarrow> Inl err
      | Inr st' \<Rightarrow> tweet_loop w uid s e db st' ys)"
  by (induction xs arbitrary: st) (auto split: sum.splits)

lemma tweet_step_new_items:
  assumes "new_items st = new_items st'"
  shows "rel_sum (=) (\<lambda>a b. new_items a = new_items b)
           (tweet_step w uid s e db st t) (tweet_step w uid s e db st' t)"
  using assms
  by (cases "tweet_check w uid s e (visible w db (new_items st')) t")
     (auto simp add: tweet_step_def err_bind_def split: verdict.splits sum.splits)

lemma tweet_loop_new_items:
  assumes "new_items st = new_items st'"
  shows "rel_sum (=) (\<lambda>a b. new_items a = new_items b)
           (tweet_loop w uid s e db st ts) (tweet_loop w uid s e db st' ts)"
  using assms
proof (induction ts arbitrary: st st')
  case Nil
  then show ?case by simp
next
  case (Cons t ts)
  from tweet_step_new_items [OF Cons.prems, of w uid s e db t]
  show ?case
    by (cases rule: rel_sum.cases) (auto simp add: Cons.IH)
qed


lemma store_tweets_loop:
  "store_tweets w u s e db items =
     (case tweet_loop w (user_id u) (midnight_utc s) (midnight_utc e) db filter_state0 items of
        Inl err \<Rightarrow> Inl err
      | Inr st \<Rightarrow> Inr (insert_and_enrich w u db (new_items st)))"
  by (cases items) (simp_all add: store_tweets_def filter_state0_def insert_and_enrich_def)

lemma store_fb_posts_filter:
  "store_fb_posts w u db items =
     fb_insert_and_enrich w u db (fb_time_errors w (user_id u) db items)
       (fb_new_items w (user_id u) db items)"
  by (cases items)
     (simp_all add: store_fb_posts_def fb_insert_and_enrich_def fb_time_errors_def
        fb_new_items_def)

lemma tweet_step_demo:
  "is_demo_item t \<Longrightarrow> tweet_step w uid s e db st t = Inr (st\<lparr>demo := demo st + 1\<rparr>)"
  by (simp add: tweet_step_def tweet_check_demo)

lemma tweet_loop_skip_demo:
  assumes "is_demo_item t"
  shows "rel_sum (=) (\<lambda>a b. new_items a = new_items b)
           (tweet_loop w uid s e db st (xs @ t # ys)) (tweet_loop w uid s e db st (xs @ ys))"
proof (cases "tweet_loop w uid s e db st xs")
  case (Inl err)
  then show ?thesis by (simp add: tweet_loop_append)
next
  case (Inr st')
  have "rel_sum (=) (\<lambda>a b. new_items a = new_items b)
          (tweet_loop w uid s e db (st'\<lparr>demo := demo st' + 1\<rparr>) ys)
          (tweet_loop w uid s e db st' ys)"
    by (rule tweet_loop_new_items) simp
  with Inr assms show ?thesis
    by (simp add: tweet_loop_append tweet_step_demo)
qed

text \<open>
  C5. An item whose key set is \<open>{demo}\<close> or \<open>{demo, type}\<close> is classified as demo by the
  tweet filter and skipped by the Facebook filter, whatever the window and the rows
  already stored; and a dataset with such an item anywhere in it has exactly the outcome
  (table, insert count, requests, logged errors) of the dataset without it, in both
  pipelines: the item is never inserted.
\<close>

theorem demo_item_never_stored:
  assumes "keys t = {''demo''} \<or> keys t = {''demo'', ''type''}"
  shows "tweet_check w uid start_utc until_utc rows t = Inr IsDemo
       \<and> fb_check w uid fb_rows t = FbSkip
       \<and> store_tweets w u start_d until_d db (xs @ t # ys)
           = store_tweets w u start_d until_d db (xs @ ys)
       \<and> store_fb_posts w u fdb (xs @ t # ys) = store_fb_posts w u fdb (xs @ ys)"
proof -
  have d: "is_demo_item t" using assms by (rule demo_keys_is_demo)
  have a: "tweet_check w uid start_utc until_utc rows t = Inr IsDemo"
    using d by (rule tweet_check_demo)
  have b: "fb_check w uid' rows' t = FbSkip" for uid' rows'
    using assms by (rule fb_check_demo)
  have c: "store_tweets w u start_d until_d db (xs @ t # ys)
             = store_tweets w u start_d until_d db (xs @ ys)"
    using tweet_loop_skip_demo [OF d, of w "user_id u" "midnight_utc start_d"
        "midnight_utc until_d" db filter_state0 xs ys]
    by (cases rule: rel_sum.cases) (simp_all add: store_tweets_loop)
  have e: "store_fb_posts w u fdb (xs @ t # ys) = store_fb_posts w u fdb (xs @ ys)"
    by (simp add: store_fb_posts_filter fb_new_items_def fb_time_errors_def b)
  from a b c e show ?thesis by blast
qed

theorem demo_item_never_stored_witness:
  "keys demo_row = {''demo''}
   \<and> tweet_check world0 1 (midnight_utc 738894) (midnight_utc 738895) [] demo_row = Inr IsDemo
   \<and> fb_check world0 1 [] demo_row = FbSkip
   \<and> store_tweets world0 user0 738894 738895 [] ([tweet_A] @ demo_row # [tweet_B])
       = store_tweets world0 user0 738894 738895 [] ([tweet_A] @ [tweet_B])
   \<and> store_fb_posts world0 user0 [] ([fb_post_P] @ demo_row # [])
       = store_fb_posts world0 user0 [] ([fb_post_P] @ [])"
proof -
  have k: "keys demo_row = {''demo''}"
    by (simp add: keys_def demo_row_def)
  then have "keys demo_row = {''demo''} \<or> keys demo_row = {''demo'', ''type''}" ..
  from demo_item_never_stored [OF this, where w = world0 and uid = 1
      and start_utc = "midnight_utc 738894" and until_utc = "midnight_utc 738895"
      and rows = "[]" and fb_rows = "[]" and u = user0 and start_d = 738894
      and until_d = 738895 and db = "[]" and xs = "[tweet_A]" and ys = "[tweet_B]"
      and fdb = "[]"]
    demo_item_never_stored [OF this, where w = world0 and uid = 1
      and start_utc = "midnight_utc 738894" and until_utc = "midnight_utc 738895"
      and rows = "[]" and fb_rows = "[]" and u = user0 and start_d = 738894
      and until_d = 738895 and db = "[]" and xs = "[fb_post_P]" and ys = "[]"
      and fdb = "[]"]
    k
  show ?thesis by blast
qed

text \<open>
  C8. If the tweet loop finishes with no new row, or the Facebook loop selects no new
  item, the invocation ends with the table as it was, zero rows inserted and no request
  to the text-generation service.
\<close>

theorem nothing_accepted_nothing_changes:
  "(tweet_loop w (user_id u) (midnight_utc start_d) (midnight_utc until_d) db
      filter_state0 items = Inr st \<and> new_items st = []
    \<longrightarrow> (\<exists>r. store_tweets w u start_d until_d db items = Inr r
             \<and> store r = db \<and> inserted r = 0 \<and> requests r = []))
   \<and> (fb_new_items w (user_id u) fdb items = []
    \<longrightarrow> (\<exists>r. store_fb_posts w u fdb items = Inr r
             \<and> store r = fdb \<and> inserted r = 0 \<and> requests r = []))"
  by (simp add: store_tweets_loop store_fb_posts_filter insert_and_enrich_def
      fb_insert_and_enrich_def unchanged_def)

theorem nothing_accepted_nothing_changes_witness:
  "(\<exists>r. store_tweets world0 user0 738894 738895 [] [demo_row, tweet_B] = Inr r
        \<and> store r = [] \<and> inserted r = 0 \<and> requests r = [])
   \<and> (\<exists>r. store_fb_posts world0 user0 [] [demo_row] = Inr r
        \<and> store r = [] \<and> inserted r = 0 \<and> requests r = [])"
proof -
  have a: "tweet_loop world0 (user_id user0) (midnight_utc 738894) (midnight_utc 738895) []
             filter_state0 [demo_row, tweet_B]
           = Inr (filter_state0\<lparr>demo := 1, out_of_window := 1\<rparr>)"
    by code_simp
  have b: "new_items (filter_state0\<lparr>demo := 1, out_of_window := 1\<rparr>) = []"
    by (simp add: filter_state0_def)
  have c: "fb_new_items world0 (user_id user0) [] [demo_row] = []"
    by code_simp
  from nothing_accepted_nothing_changes [where w = world0 and u = user0
      and start_d = 738894 and until_d = 738895 and db = "[]" and items = "[demo_row, tweet_B]"
      and st = "filter_state0\<lparr>demo := 1, out_of_window := 1\<rparr>" and fdb = "[]"]
    nothing_accepted_nothing_changes [where w = world0 and u = user0
      and start_d = 738894 and until_d = 738895 and db = "[]" and items = "[demo_row]"
      and st = filter_state0 and fdb = "[]"]
    a b c
  show ?thesis by blast
qed

subsection \<open>The window check\<close>

lemma date_of_today:
  "(date_of d = n) = (n * day_us \<le> wall d \<and> wall d < (n + 1) * day_us)"
proof -
  have pos: "0 < day_us" by (simp add: day_us_def)
  have "(wall d div day_us = n) = (n * day_us \<le> wall d \<and> wall d < (n + 1) * day_us)"
  proof
    assume h: "wall d div day_us = n"
    have "wall d = day_us * (wall d div day_us) + wall d mod day_us" by simp
    moreover have "0 \<le> wall d mod day_us" "wall d mod day_us < day_us"
      using pos by simp_all
    ultimately show "n * day_us \<le> wall d \<and> wall d < (n + 1) * day_us"
      using h by (simp add: algebra_simps)
  next
    assume "n * day_us \<le> wall d \<and> wall d < (n + 1) * day_us"
    then show "wall d div day_us = n"
      using pos by (intro div_pos_pos_trivial int_div_pos_eq[of "wall d" day_us n "wall d - n * day_us"])
         (simp_all add: algebra_simps)
  qed
  then show ?thesis by (simp add: date_of_def)
qed

text \<open>
  What the two window checks compute. For an item that passes the demo, type, key and
  dedup checks and whose timestamp normalises to \<open>dt\<close>, the tweet filter keeps the item
  exactly when \<open>start \<le> dt < until\<close> as instants and otherwise discards it as out of
  window; so an item exactly at \<open>until\<close> is out of window and, the window being
  non-empty, an item exactly at \<open>start\<close> is kept. For a post that passes its key and dedup
  checks, the Facebook filter keeps the post exactly when the wall-clock reading of the
  parsed timestamp falls on the current UTC day; for a timestamp without offset or with
  offset zero this is \<open>start \<le> dt < until\<close> for the window of that day.
\<close>

lemma window_check:
  "(\<not> is_demo_item t
      \<and> \<not> (truthy (get t ''type'') \<and> get t ''type'' \<noteq> JStr ''tweet'')
      \<and> tid = py_str w (py_or (get_default t ''id'' (JStr [])) (JStr [])) \<and> tid \<noteq> []
      \<and> pick_timestamp_raw t = Inr raw \<and> truthy raw \<and> parse_timestamp w raw = Some dt
      \<and> \<not> tweet_exists rows uid tid
    \<longrightarrow> tweet_check w uid start_utc until_utc rows t
          = Inr (if utc_instant start_utc \<le> utc_instant dt
                     \<and> utc_instant dt < utc_instant until_utc
                 then Keep tid dt else OutOfWindow)
        \<and> (utc_instant dt = utc_instant until_utc
             \<longrightarrow> tweet_check w uid start_utc until_utc rows t = Inr OutOfWindow)
        \<and> (utc_instant dt = utc_instant start_utc
               \<and> utc_instant start_utc < utc_instant until_utc
             \<longrightarrow> tweet_check w uid start_utc until_utc rows t = Inr (Keep tid dt)))
   \<and> (pid = py_str w (get_default p ''postId'' (get_default p ''id'' (JStr []))) \<and> pid \<noteq> []
      \<and> truthy (get_default p ''time'' (JStr []))
      \<and> fb_parse_time w (get_default p ''time'' (JStr [])) = Some fdt
      \<and> \<not> fb_post_exists w fb_rows uid pid
    \<longrightarrow> fb_check w uid fb_rows p
          = (if today_utc w * day_us \<le> wall fdt \<and> wall fdt < (today_utc w + 1) * day_us
             then FbNew else FbOtherDay)
        \<and> (tzoff fdt = None \<or> tzoff fdt = Some 0
             \<longrightarrow> fb_check w uid fb_rows p
                  = (if in_window (midnight_utc (today_utc w)) (midnight_utc (today_utc w + 1)) fdt
                     then FbNew else FbOtherDay)))"
proof (intro conjI impI)
  assume h: "\<not> is_demo_item t
      \<and> \<not> (truthy (get t ''type'') \<and> get t ''type'' \<noteq> JStr ''tweet'')
      \<and> tid = py_str w (py_or (get_default t ''id'' (JStr [])) (JStr [])) \<and> tid \<noteq> []
      \<and> pick_timestamp_raw t = Inr raw \<and> truthy raw \<and> parse_timestamp w raw = Some dt
      \<and> \<not> tweet_exists rows uid tid"
  then show main: "tweet_check w uid start_utc until_utc rows t
          = Inr (if utc_instant start_utc \<le> utc_instant dt
                     \<and> utc_instant dt < utc_instant until_utc
                 then Keep tid dt else OutOfWindow)"
    by (auto simp add: tweet_check_def in_window_def err_bind_def Let_def)
  show "tweet_check w uid start_utc until_utc rows t = Inr OutOfWindow"
    if "utc_instant dt = utc_instant until_utc"
    using main that by simp
  show "tweet_check w uid start_utc until_utc rows t = Inr (Keep tid dt)"
    if "utc_instant dt = utc_instant start_utc \<and> utc_instant start_utc < utc_instant until_utc"
    using main that by simp
next
  assume h: "pid = py_str w (get_default p ''postId'' (get_default p ''id'' (JStr []))) \<and> pid \<noteq> []
      \<and> truthy (get_default p ''time'' (JStr []))
      \<and> fb_parse_time w (get_default p ''time'' (JStr [])) = Some fdt
      \<and> \<not> fb_post_exists w fb_rows uid pid"
  then show main: "fb_check w uid fb_rows p
          = (if today_utc w * day_us \<le> wall fdt \<and> wall fdt < (today_utc w + 1) * day_us
             then FbNew else FbOtherDay)"
    by (auto simp add: fb_check_def Let_def date_of_today)
  show "fb_check w uid fb_rows p
          = (if in_window (midnight_utc (today_utc w)) (midnight_utc (today_utc w + 1)) fdt
             then FbNew else FbOtherDay)"
    if "tzoff fdt = None \<or> tzoff fdt = Some 0"
    using main that by (auto simp add: in_window_def utc_instant_def midnight_utc_def)
qed

lemma window_check_evaluated:
  "parse_timestamp world0 (JStr ''2024-01-11T00:00:00Z'') = Some (midnight_utc 738895)
   \<and> tweet_check world0 1 (midnight_utc 738894) (midnight_utc 738895) [] tweet_B
       = Inr OutOfWindow
   \<and> parse_timestamp world0 (JStr ''2024-01-10T00:00:00Z'') = Some (midnight_utc 738894)
   \<and> tweet_check world0 1 (midnight_utc 738894) (midnight_utc 738895) [] tweet_D
       = Inr (Keep ''D'' (midnight_utc 738894))
   \<and> fb_check world0 1 [] fb_post_P = FbNew"
proof -
  have pB: "\<not> is_demo_item tweet_B
      \<and> \<not> (truthy (get tweet_B ''type'') \<and> get tweet_B ''type'' \<noteq> JStr ''tweet'')
      \<and> ''B'' = py_str world0 (py_or (get_default tweet_B ''id'' (JStr [])) (JStr []))
      \<and> ''B'' \<noteq> []
      \<and> pick_timestamp_raw tweet_B = Inr (JStr ''2024-01-11T00:00:00Z'')
      \<and> truthy (JStr ''2024-01-11T00:00:00Z'')
      \<and> parse_timestamp world0 (JStr ''2024-01-11T00:00:00Z'') = Some (midnight_utc 738895)
      \<and> \<not> tweet_exists [] 1 ''B''"
    by code_simp
  have pD: "\<not> is_demo_item tweet_D
      \<and> \<not> (truthy (get tweet_D ''type'') \<and> get tweet_D ''type'' \<noteq> JStr ''tweet'')
      \<and> ''D'' = py_str world0 (py_or (get_default tweet_D ''id'' (JStr [])) (JStr []))
      \<and> ''D'' \<noteq> []
      \<and> pick_timestamp_raw tweet_D = Inr (JStr ''2024-01-10T00:00:00Z'')
      \<and> truthy (JStr ''2024-01-10T00:00:00Z'')
      \<and> parse_timestamp world0 (JStr ''2024-01-10T00:00:00Z'') = Some (midnight_utc 738894)
      \<and> \<not> tweet_exists [] 1 ''D''"
    by code_simp
  have pP: "''p1'' = py_str world0 (get_default fb_post_P ''postId''
                                      (get_default fb_post_P ''id'' (JStr [])))
      \<and> ''p1'' \<noteq> []
      \<and> truthy (get_default fb_post_P ''time'' (JStr []))
      \<and> fb_parse_time world0 (get_default fb_post_P ''time'' (JStr []))
          = Some \<lparr>wall = 738894 * day_us + 9 * hour_us, tzoff = Some 0\<rparr>
      \<and> \<not> fb_post_exists world0 [] 1 ''p1''"
    by code_simp
  have lt: "utc_instant (midnight_utc 738894) < utc_instant (midnight_utc 738895)"
    by code_simp
  have today: "today_utc world0 * day_us \<le> wall \<lparr>wall = 738894 * day_us + 9 * hour_us, tzoff = Some 0\<rparr>
      \<and> wall \<lparr>wall = 738894 * day_us + 9 * hour_us, tzoff = Some 0\<rparr> < (today_utc world0 + 1) * day_us"
    by code_simp
  note wB = window_check [where t = tweet_B and w = world0 and tid = "''B''"
      and raw = "JStr ''2024-01-11T00:00:00Z''" and dt = "midnight_utc 738895"
      and rows = "[]" and uid = 1 and start_utc = "midnight_utc 738894"
      and until_utc = "midnight_utc 738895" and p = fb_post_P and pid = "''p1''"
      and fdt = "\<lparr>wall = 738894 * day_us + 9 * hour_us, tzoff = Some 0\<rparr>" and fb_rows = "[]"]
  note wD = window_check [where t = tweet_D and w = world0 and tid = "''D''"
      and raw = "JStr ''2024-01-10T00:00:00Z''" and dt = "midnight_utc 738894"
      and rows = "[]" and uid = 1 and start_utc = "midnight_utc 738894"
      and until_utc = "midnight_utc 738895" and p = fb_post_P and pid = "''p1''"
      and fdt = "\<lparr>wall = 738894 * day_us + 9 * hour_us, tzoff = Some 0\<rparr>" and fb_rows = "[]"]
  have B: "tweet_check world0 1 (midnight_utc 738894) (midnight_utc 738895) [] tweet_B
             = Inr OutOfWindow"
    using wB pB by blast
  have D: "tweet_check world0 1 (midnight_utc 738894) (midnight_utc 738895) [] tweet_D
             = Inr (Keep ''D'' (midnight_utc 738894))"
    using wD pD lt by blast
  have "fb_check world0 1 [] fb_post_P
          = (if today_utc world0 * day_us
                  \<le> wall \<lparr>wall = 738894 * day_us + 9 * hour_us, tzoff = Some 0\<rparr>
                \<and> wall \<lparr>wall = 738894 * day_us + 9 * hour_us, tzoff = Some 0\<rparr>
                  < (today_utc world0 + 1) * day_us
             then FbNew else FbOtherDay)"
    using wB pP by blast
  then have P: "fb_check world0 1 [] fb_post_P = FbNew"
    using today by (simp only: if_True simp_thms)
  from B D P pB pD show ?thesis by blast
qed

text \<open>
  C1 at the failing input. On 2024-01-10 (UTC) the Facebook filter keeps a post stamped
  \<open>2024-01-10T23:30:00-05:00\<close>: it compares the calendar date of the timestamp as
  written, without normalising it to UTC, with the current UTC date. The instant of the
  post is 2024-01-11T04:30:00Z, which is not before the end of that day's window.
\<close>

theorem fb_window_not_normalised:
  "fb_check world0 1 [] fb_post_Q = FbNew
   \<and> fb_parse_time world0 (get_default fb_post_Q ''time'' (JStr []))
       = Some \<lparr>wall = 738894 * day_us + 23 * hour_us + 1800000000, tzoff = Some (- 5 * hour_us)\<rparr>
   \<and> utc_instant \<lparr>wall = 738894 * day_us + 23 * hour_us + 1800000000, tzoff = Some (- 5 * hour_us)\<rparr>
       = 738895 * day_us + 4 * hour_us + 1800000000
   \<and> \<not> in_window (midnight_utc (today_utc world0)) (midnight_utc (today_utc world0 + 1))
         \<lparr>wall = 738894 * day_us + 23 * hour_us + 1800000000, tzoff = Some (- 5 * hour_us)\<rparr>"
  by code_simp

subsection \<open>Enrichment\<close>

lemma split_skip_nonempty: "split_skip sep n s \<noteq> []"
  by (induction sep n s rule: split_skip.induct) (auto split: list.splits)

lemma split_contains:
  assumes "py_contains sep s" and "sep \<noteq> []"
  shows "\<exists>p0 p1 ps. py_split s sep = p0 # p1 # ps"
  using assms
proof (induction s)
  case Nil
  then show ?case by simp
next
  case (Cons c cs)
  show ?case
  proof (cases "startswith (c # cs) sep")
    case True
    obtain q qs where "split_skip sep (length sep - 1) cs = q # qs"
      using split_skip_nonempty [of sep "length sep - 1" cs] by (cases "split_skip sep (length sep - 1) cs") auto
    with True show ?thesis by (simp add: py_split_def)
  next
    case False
    with Cons.prems have "py_contains sep cs" by simp
    from Cons.IH [OF this Cons.prems(2)] False show ?thesis
      by (auto simp add: py_split_def)
  qed
qed

lemma parse_no_marker:
  "\<not> py_contains ''Post Title:'' r \<Longrightarrow> parse_chatgpt_response r = (''Untitled'', r)"
  by (simp add: parse_chatgpt_response_def)

lemma call_chatgpt_raised:
  "key_set w \<Longrightarrow> chat w n p = Raised e \<Longrightarrow>
     call_chatgpt w n p = (''Error calling ChatGPT: '' @ e, [p], [ErrCallingChatGPT e])"
  by (simp add: call_chatgpt_def post_chat_def)

lemma call_chatgpt_requests:
  "key_set w \<Longrightarrow> fst (snd (call_chatgpt w n p)) = [p]"
  by (simp add: call_chatgpt_def post_chat_def split: chat_outcome.splits)

lemma enrich_tweets_shape:
  "key_set w \<Longrightarrow>
     length (fst (enrich_tweets w l n sts)) = length sts
     \<and> fst (snd (enrich_tweets w l n sts)) = map (tweet_prompt w l) sts"
proof (induction sts arbitrary: n)
  case Nil
  then show ?case by simp
next
  case (Cons st sts)
  from Cons.prems have r: "fst (snd (call_chatgpt w n (tweet_prompt w l st))) = [tweet_prompt w l st]"
    by (rule call_chatgpt_requests)
  from Cons.IH [OF Cons.prems, of "n + 1"] r show ?case
    by (auto simp add: Let_def split: prod.splits)
qed

text \<open>
  A request that raises. With a credential configured, every record of the invocation
  gets its own request. When the request for one record raises with message \<open>e\<close> (and
  the resulting text does not contain the marker \<open>Post Title:\<close>), the error is logged,
  and the record's summary is set to the text \<open>Error calling ChatGPT: e\<close> and its title to
  \<open>Untitled\<close>.
\<close>

lemma enrichment_failure_is_recorded:
  assumes "key_set w" and "i < length sts"
    and "chat w (n + i) (tweet_prompt w l (sts ! i)) = Raised e"
    and "\<not> py_contains ''Post Title:'' (''Error calling ChatGPT: '' @ e)"
  shows "length (fst (enrich_tweets w l n sts)) = length sts
       \<and> fst (snd (enrich_tweets w l n sts)) = map (tweet_prompt w l) sts
       \<and> fst (enrich_tweets w l n sts) ! i
           = (sts ! i)\<lparr>chatgpt_output := Some (''Error calling ChatGPT: '' @ e),
                        chatgpt_title := Some ''Untitled''\<rparr>
       \<and> ErrCallingChatGPT e \<in> set (fst (snd (snd (enrich_tweets w l n sts))))"
proof -
  have main: "fst (enrich_tweets w l n sts) ! i
           = (sts ! i)\<lparr>chatgpt_output := Some (''Error calling ChatGPT: '' @ e),
                        chatgpt_title := Some ''Untitled''\<rparr>
       \<and> ErrCallingChatGPT e \<in> set (fst (snd (snd (enrich_tweets w l n sts))))"
    using assms(2,3)
  proof (induction sts arbitrary: n i)
    case Nil
    then show ?case by simp
  next
    case (Cons st sts)
    have r: "fst (snd (call_chatgpt w n (tweet_prompt w l st))) = [tweet_prompt w l st]"
      using assms(1) by (rule call_chatgpt_requests)
    show ?case
    proof (cases i)
      case 0
      with Cons.prems have "chat w n (tweet_prompt w l st) = Raised e" by simp
      from call_chatgpt_raised [OF assms(1) this] parse_no_marker [OF assms(4)]
      show ?thesis using 0
        by (simp add: Let_def split: prod.splits)
    next
      case (Suc j)
      with Cons.prems have "j < length sts"
        and "chat w ((n + 1) + j) (tweet_prompt w l (sts ! j)) = Raised e"
        by simp_all
      from Cons.IH [OF this] r Suc show ?thesis
        by (auto simp add: Let_def split: prod.splits)
    qed
  qed
  with enrich_tweets_shape [OF assms(1), of l n sts] show ?thesis by blast
qed


lemma make_tweet_tweet_A:
  "make_tweet 1 tweet_A ''A'' \<lparr>wall = 738894 * day_us + 9 * hour_us, tzoff = Some 0\<rparr> = Inr tweet_row_A"
  by code_simp

lemma enrichment_failure_is_recorded_evaluated:
  "key_set world1
   \<and> chat world1 0 (tweet_prompt world1 ''German'' tweet_row_A) = Raised ''timeout''
   \<and> fst (enrich_tweets world1 ''German'' 0 [tweet_row_A]) ! 0
       = tweet_row_A\<lparr>chatgpt_output := Some ''Error calling ChatGPT: timeout'',
                      chatgpt_title := Some ''Untitled''\<rparr>
   \<and> ErrCallingChatGPT ''timeout''
       \<in> set (fst (snd (snd (enrich_tweets world1 ''German'' 0 [tweet_row_A]))))"
proof -
  have k: "key_set world1" by code_simp
  have i: "0 < length [tweet_row_A]" by simp
  have c: "chat world1 (0 + 0) (tweet_prompt world1 ''German'' ([tweet_row_A] ! 0))
             = Raised ''timeout''"
    by (simp add: world1_def)
  have m: "\<not> py_contains ''Post Title:'' (''Error calling ChatGPT: '' @ ''timeout'')"
    by code_simp
  from enrichment_failure_is_recorded [OF k i c m] k c show ?thesis by simp
qed

text \<open>
  C6 at the failing input. Three tweets are inserted; the request for the first raises a
  timeout, the request for the second is answered with an error body without choices,
  the third is answered. The enrichment fields of the two failing records are not left
  empty: they hold the error text, or the text \<open>No response from ChatGPT.\<close>, and the
  placeholder title; only the timeout is logged as an error. The third record is
  enriched from the reply.
\<close>

theorem enrichment_failure_fields_written:
  "map_sum id (\<lambda>r. map (\<lambda>st. (tweet_id st, chatgpt_title st, chatgpt_output st)) (store r))
     (store_tweets world1 user0 738894 738895 [] [tweet_A, tweet_C, tweet_E])
     = Inr [(''A'', Some ''Untitled'', Some ''Error calling ChatGPT: timeout''),
            (''C'', Some ''Untitled'', Some ''No response from ChatGPT.''),
            (''E'', Some ''Gruss'', Some ''Kurzfassung.'')]
   \<and> map_sum id errors (store_tweets world1 user0 738894 738895 [] [tweet_A, tweet_C, tweet_E])
     = Inr [ErrCallingChatGPT ''timeout'']
   \<and> map_sum id inserted (store_tweets world1 user0 738894 738895 [] [tweet_A, tweet_C, tweet_E])
     = Inr 3"
  by code_simp

lemma tweets_skip_enrichment_without_credential:
  "\<not> key_set w \<Longrightarrow>
     requests (insert_and_enrich w u db new) = []
     \<and> store (insert_and_enrich w u db new) = db @ new"
  by (simp add: insert_and_enrich_def unchanged_def)

text \<open>
  C7 at the failing input. Without a credential the tweet pipeline sends nothing and
  leaves the new rows as inserted (lemma \<open>tweets_skip_enrichment_without_credential\<close>).
  The Facebook pipeline, in a world without credential, posts a request for the new post
  and writes the outcome into its enrichment fields.
\<close>

theorem fb_enrichment_without_credential:
  "OPENAI_API_KEY world0 = None
   \<and> store_fb_posts world0 user0 [] [fb_post_P]
     = Inr \<lparr>store = [\<lparr> post_id = JStr ''p1'', post_user_id = 1, page_name = JStr [],
                        post_url = JStr [], post_text = JStr ''hello'',
                        time_of_posting = JStr ''2024-01-10T09:00:00.000Z'',
                        number_of_likes = JInt 0, number_of_comments = JInt 0,
                        number_of_shares = JInt 0, first_post_picture = JStr [],
                        profile_picture = JStr [], posttitle = Some ''Untitled'',
                        post_chatgpt_output = Some ''No response from ChatGPT.'' \<rparr>],
            inserted = 1,
            requests = [fb_prompt ''Ann'' ''English'' ''hello''],
            errors = []\<rparr>"
  by code_simp

subsection \<open>Running an invocation again\<close>

lemma tweet_exists_append:
  "tweet_exists (a @ b) uid tid = (tweet_exists a uid tid \<or> tweet_exists b uid tid)"
  by (simp add: tweet_exists_def)

lemma tweet_exists_keys:
  "tweet_exists rows uid tid
     = ((uid, tid) \<in> set (map (\<lambda>r. (tweet_user_id r, tweet_id r)) rows))"
  by (induction rows) (auto simp add: tweet_exists_def)

lemma make_tweet_key:
  "make_tweet uid t tid dt = Inr row \<Longrightarrow> tweet_user_id row = uid \<and> tweet_id row = tid"
  by (auto simp add: make_tweet_def err_bind_def split: sum.splits)

lemma tweet_check_rerun:
  assumes "tweet_check w uid s e rows t = Inr v"
    and "\<And>tid. tweet_exists rows uid tid \<Longrightarrow> tweet_exists rows' uid tid"
    and "\<And>tid dt. v = Keep tid dt \<Longrightarrow> tweet_exists rows' uid tid"
  shows "\<exists>v'. tweet_check w uid s e rows' t = Inr v' \<and> (\<forall>tid dt. v' \<noteq> Keep tid dt)"
  using assms
  by (auto simp add: tweet_check_def err_bind_def Let_def
      split: if_splits sum.splits option.splits)

lemma tweet_step_extends:
  "tweet_step w uid s e db st t = Inr st' \<Longrightarrow> \<exists>A. new_items st' = new_items st @ A"
  by (auto simp add: tweet_step_def err_bind_def split: sum.splits verdict.splits)

lemma tweet_loop_extends:
  "tweet_loop w uid s e db st ts = Inr st1 \<Longrightarrow> \<exists>A. new_items st1 = new_items st @ A"
proof (induction ts arbitrary: st)
  case Nil
  then show ?case by simp
next
  case (Cons t ts)
  then obtain st' where a: "tweet_step w uid s e db st t = Inr st'"
    and b: "tweet_loop w uid s e db st' ts = Inr st1"
    by (auto split: sum.splits)
  from tweet_step_extends [OF a] Cons.IH [OF b] show ?case by auto
qed

lemma tweet_step_not_kept:
  assumes "tweet_check w uid s e (visible w db (new_items st)) t = Inr v"
    and "\<forall>tid dt. v \<noteq> Keep tid dt"
  shows "\<exists>st'. tweet_step w uid s e db st t = Inr st' \<and> new_items st' = new_items st"
  using assms by (cases v) (simp_all add: tweet_step_def)

lemma tweet_loop_rerun:
  assumes "tweet_loop w uid s e db st ts = Inr st1"
    and "new_items st2 = []"
    and "\<And>tid. tweet_exists (db @ new_items st1) uid tid \<Longrightarrow> tweet_exists db2 uid tid"
  shows "\<exists>st3. tweet_loop w uid s e db2 st2 ts = Inr st3 \<and> new_items st3 = []"
  using assms
proof (induction ts arbitrary: st st2)
  case Nil
  then show ?case by simp
next
  case (Cons t ts)
  from Cons.prems(1) obtain st' where a: "tweet_step w uid s e db st t = Inr st'"
    and b: "tweet_loop w uid s e db st' ts = Inr st1"
    by (auto split: sum.splits)
  from a obtain v where v: "tweet_check w uid s e (visible w db (new_items st)) t = Inr v"
    by (auto simp add: tweet_step_def err_bind_def split: sum.splits)
  from tweet_step_extends [OF a] obtain A where A: "new_items st' = new_items st @ A" by blast
  from tweet_loop_extends [OF b] obtain B where B: "new_items st1 = new_items st' @ B" by blast
  have vis2: "visible w db2 (new_items st2) = db2"
    using Cons.prems(2) by (simp add: visible_def)
  have mono: "tweet_exists db2 uid tid"
    if "tweet_exists (visible w db (new_items st)) uid tid" for tid
  proof -
    from that have "tweet_exists (db @ new_items st1) uid tid"
      by (auto simp add: visible_def A B tweet_exists_append split: if_splits)
    then show ?thesis by (rule Cons.prems(3))
  qed
  have kept: "tweet_exists db2 uid tid" if "v = Keep tid dt" for tid dt
  proof -
    from a v that obtain row where row: "make_tweet uid t tid dt = Inr row"
      and st': "new_items st' = new_items st @ [row]"
      by (auto simp add: tweet_step_def err_bind_def split: sum.splits)
    from make_tweet_key [OF row] have "tweet_exists [row] uid tid"
      by (simp add: tweet_exists_def)
    then have "tweet_exists (db @ new_items st1) uid tid"
      by (simp add: B st' tweet_exists_def)
    then show ?thesis by (rule Cons.prems(3))
  qed
  have "\<exists>v'. tweet_check w uid s e db2 t = Inr v' \<and> (\<forall>tid dt. v' \<noteq> Keep tid dt)"
  proof (rule tweet_check_rerun [OF v])
    show "tweet_exists db2 uid tid"
      if "tweet_exists (visible w db (new_items st)) uid tid" for tid
      using that by (rule mono)
    show "tweet_exists db2 uid tid" if "v = Keep tid dt" for tid dt
      using that by (rule kept)
  qed
  then obtain v' where v': "tweet_check w uid s e db2 t = Inr v'"
    and nk: "\<forall>tid dt. v' \<noteq> Keep tid dt"
    by blast
  from tweet_step_not_kept [of w uid s e db2 st2 t v'] v' nk vis2
  obtain st2' where c: "tweet_step w uid s e db2 st2 t = Inr st2'"
    and d: "new_items st2' = []"
    using Cons.prems(2) by auto
  from Cons.IH [OF b d Cons.prems(3)] c show ?case by simp
qed

lemma enrich_tweets_keys:
  "map (\<lambda>r. (tweet_user_id r, tweet_id r)) (fst (enrich_tweets w l n sts))
     = map (\<lambda>r. (tweet_user_id r, tweet_id r)) sts"
proof (induction sts arbitrary: n)
  case Nil
  then show ?case by simp
next
  case (Cons st sts)
  from Cons.IH [of "n + length (fst (snd (call_chatgpt w n (tweet_prompt w l st))))"]
  show ?case
    by (auto simp add: Let_def split: prod.splits)
qed

lemma insert_and_enrich_keys:
  "map (\<lambda>r. (tweet_user_id r, tweet_id r)) (store (insert_and_enrich w u db new))
     = map (\<lambda>r. (tweet_user_id r, tweet_id r)) (db @ new)"
  using enrich_tweets_keys [of w "lang_name_of (preferred_language u)" 0 new]
  by (auto simp add: insert_and_enrich_def unchanged_def split: prod.splits)

lemma store_tweets_rerun:
  assumes "store_tweets w u s e db items = Inr r"
  shows "store_tweets w u s e (store r) items = Inr (unchanged (store r) [])"
proof -
  from assms obtain st1 where
    a: "tweet_loop w (user_id u) (midnight_utc s) (midnight_utc e) db filter_state0 items = Inr st1"
    and r: "r = insert_and_enrich w u db (new_items st1)"
    by (auto simp add: store_tweets_loop split: sum.splits)
  have k: "tweet_exists (store r) (user_id u) tid"
    if "tweet_exists (db @ new_items st1) (user_id u) tid" for tid
    using that by (simp add: tweet_exists_keys r insert_and_enrich_keys)
  from tweet_loop_rerun [OF a _ k, of filter_state0]
  obtain st3 where
    "tweet_loop w (user_id u) (midnight_utc s) (midnight_utc e) (store r) filter_state0 items
       = Inr st3" and "new_items st3 = []"
    by (auto simp add: filter_state0_def)
  then show ?thesis
    by (simp add: store_tweets_loop insert_and_enrich_def)
qed


lemma fb_post_exists_raw:
  "fb_post_exists w rows uid pid
     = ((uid, pid) \<in> (\<lambda>k. (fst k, stored_text w (snd k)))
                          ` set (map (\<lambda>r. (post_user_id r, post_id r)) rows))"
  by (induction rows) (auto simp add: fb_post_exists_def image_iff)

lemma fb_process_key:
  "fb_process uid t = Inr row \<Longrightarrow>
     post_user_id row = uid
     \<and> post_id row = get_default t ''postId'' (get_default t ''id'' (JStr []))"
  by (auto simp add: fb_process_def err_bind_def split: sum.splits)

lemma fb_process_all_keys:
  "fb_process_all uid ts = Inr rows \<Longrightarrow>
     map (\<lambda>r. (post_user_id r, post_id r)) rows
       = map (\<lambda>t. (uid, get_default t ''postId'' (get_default t ''id'' (JStr [])))) ts"
proof (induction ts arbitrary: rows)
  case Nil
  then show ?case by simp
next
  case (Cons t ts)
  then obtain row rest where a: "fb_process uid t = Inr row"
    and b: "fb_process_all uid ts = Inr rest" and c: "rows = row # rest"
    by (auto split: sum.splits)
  from fb_process_key [OF a] Cons.IH [OF b] c show ?case by simp
qed

lemma update_first_keys:
  "(\<And>x. k (f x) = k x) \<Longrightarrow> map k (update_first P f xs) = map k xs"
  by (induction xs) simp_all

lemma fb_enrich_keys:
  "map (\<lambda>r. (post_user_id r, post_id r)) (fst (fb_enrich w u l n tbl ds))
     = map (\<lambda>r. (post_user_id r, post_id r)) tbl"
proof (induction ds arbitrary: n tbl)
  case Nil
  then show ?case by simp
next
  case (Cons d ds)
  show ?case
  proof (cases "find (fb_matches w (user_id u) (post_id d)) tbl")
    case None
    then show ?thesis by (simp add: Cons.IH)
  next
    case (Some fb_post)
    obtain response reqs errs where pc:
      "post_chat w n (fb_prompt (fb_page_name w u fb_post) l
         (py_str w (py_or (post_text fb_post) (JStr [])))) = (response, reqs, errs)"
      by (metis prod_cases3)
    obtain title summary perrs where pr:
      "fb_parse_chatgpt_response response = ((title, summary), perrs)"
      by (cases "fb_parse_chatgpt_response response") auto
    let ?tbl' = "update_first (fb_matches w (user_id u) (post_id d))
                   (\<lambda>r. r\<lparr>post_chatgpt_output := Some summary, posttitle := Some title\<rparr>) tbl"
    have k: "map (\<lambda>r. (post_user_id r, post_id r)) ?tbl'
               = map (\<lambda>r. (post_user_id r, post_id r)) tbl"
      by (rule update_first_keys) simp
    from Cons.IH [of "n + 1" ?tbl'] k Some pc pr show ?thesis
      by (auto simp add: Let_def split: prod.splits)
  qed
qed

lemma fb_check_new:
  "fb_check w uid db t = FbNew \<Longrightarrow>
     \<not> fb_post_exists w db uid
         (py_str w (get_default t ''postId'' (get_default t ''id'' (JStr []))))"
  by (auto simp add: fb_check_def Let_def split: if_splits option.splits)

lemma fb_check_rerun:
  assumes "\<And>pid. fb_post_exists w db uid pid \<Longrightarrow> fb_post_exists w db2 uid pid"
    and "fb_check w uid db2 t = FbNew"
  shows "fb_check w uid db t = FbNew"
  using assms
  by (auto simp add: fb_check_def Let_def split: if_splits option.splits)

lemma store_fb_posts_rerun:
  assumes "store_fb_posts w u db items = Inr r"
    and ids: "\<forall>t \<in> set items.
                stored_text w (get_default t ''postId'' (get_default t ''id'' (JStr [])))
                  = py_str w (get_default t ''postId'' (get_default t ''id'' (JStr [])))"
  shows "\<exists>errs. store_fb_posts w u (store r) items = Inr (unchanged (store r) errs)"
proof (cases "fb_new_items w (user_id u) db items = []")
  case True
  with assms(1) have "r = unchanged db (fb_time_errors w (user_id u) db items)"
    by (simp add: store_fb_posts_filter fb_insert_and_enrich_def)
  with assms(1) show ?thesis by (auto simp add: unchanged_def)
next
  case False
  let ?uid = "user_id u"
  let ?new = "fb_new_items w ?uid db items"
  let ?key = "\<lambda>r. (post_user_id r, post_id r)"
  from assms(1) False obtain rows where rows: "fb_process_all ?uid ?new = Inr rows"
    and r: "store r = fst (fb_enrich w u (lang_name_of (preferred_language_facebook u)) 0
                             (db @ rows) rows)"
    by (auto simp add: store_fb_posts_filter fb_insert_and_enrich_def
        split: sum.splits if_splits prod.splits)
  have keys: "map ?key (store r) = map ?key db @ map ?key rows"
    by (simp add: r fb_enrich_keys)
  have mono: "fb_post_exists w (store r) ?uid pid" if "fb_post_exists w db ?uid pid" for pid
    using that by (simp add: fb_post_exists_raw keys image_Un)
  have none: "fb_check w ?uid (store r) t \<noteq> FbNew" if t: "t \<in> set items" for t
  proof
    assume n2: "fb_check w ?uid (store r) t = FbNew"
    let ?id = "get_default t ''postId'' (get_default t ''id'' (JStr []))"
    have n1: "fb_check w ?uid db t = FbNew"
      by (rule fb_check_rerun [OF mono n2])
    with t have "t \<in> set ?new" by (simp add: fb_new_items_def)
    then have "(?uid, ?id) \<in> set (map ?key rows)"
      by (simp add: fb_process_all_keys [OF rows])
    then have "(?uid, stored_text w ?id)
                 \<in> (\<lambda>k. (fst k, stored_text w (snd k))) ` set (map ?key (store r))"
      by (simp add: keys image_Un) force
    then have "fb_post_exists w (store r) ?uid (stored_text w ?id)"
      by (simp add: fb_post_exists_raw)
    moreover from ids t have "stored_text w ?id = py_str w ?id" by blast
    ultimately have "fb_post_exists w (store r) ?uid (py_str w ?id)" by simp
    with fb_check_new [OF n2] show False by simp
  qed
  then have "fb_new_items w ?uid (store r) items = []"
    by (simp add: fb_new_items_def filter_empty_conv)
  then have "store_fb_posts w u (store r) items
               = Inr (unchanged (store r) (fb_time_errors w ?uid (store r) items))"
    by (simp add: store_fb_posts_filter fb_insert_and_enrich_def)
  then show ?thesis ..
qed

text \<open>
  C2, as amended. Let an invocation complete, and run it again with the same window
  (same clock day, same world) over the same dataset on the table the first run left.
  The second run of the tweet pipeline completes, inserts no row, sends no request and
  leaves the table as it is. So does the second run of the Facebook pipeline, provided
  that for every item the text stored for its post id is \<open>str()\<close> of the id, as it is for
  an id that is a string.
\<close>

theorem rerun_inserts_nothing:
  "(store_tweets w u start_d until_d db items = Inr r
      \<longrightarrow> (\<exists>r2. store_tweets w u start_d until_d (store r) items = Inr r2
                \<and> store r2 = store r \<and> inserted r2 = 0 \<and> requests r2 = []))
   \<and> (store_fb_posts w u fdb items = Inr fr
        \<and> (\<forall>t \<in> set items.
              stored_text w (get_default t ''postId'' (get_default t ''id'' (JStr [])))
                = py_str w (get_default t ''postId'' (get_default t ''id'' (JStr []))))
      \<longrightarrow> (\<exists>r2. store_fb_posts w u (store fr) items = Inr r2
                \<and> store r2 = store fr \<and> inserted r2 = 0 \<and> requests r2 = []))"
proof (intro conjI impI)
  assume "store_tweets w u start_d until_d db items = Inr r"
  from store_tweets_rerun [OF this]
  show "\<exists>r2. store_tweets w u start_d until_d (store r) items = Inr r2
           \<and> store r2 = store r \<and> inserted r2 = 0 \<and> requests r2 = []"
    by (simp add: unchanged_def)
next
  assume h: "store_fb_posts w u fdb items = Inr fr
        \<and> (\<forall>t \<in> set items.
              stored_text w (get_default t ''postId'' (get_default t ''id'' (JStr [])))
                = py_str w (get_default t ''postId'' (get_default t ''id'' (JStr []))))"
  from store_fb_posts_rerun [OF conjunct1 [OF h] conjunct2 [OF h]]
  show "\<exists>r2. store_fb_posts w u (store fr) items = Inr r2
           \<and> store r2 = store fr \<and> inserted r2 = 0 \<and> requests r2 = []"
    by (auto simp add: unchanged_def)
qed

theorem rerun_inserts_nothing_witness:
  "store_tweets world0 user0 738894 738895 [] [tweet_A, tweet_B]
     = Inr \<lparr>store = [tweet_row_A], inserted = 1, requests = [], errors = []\<rparr>
   \<and> (\<exists>r2. store_tweets world0 user0 738894 738895 [tweet_row_A] [tweet_A, tweet_B] = Inr r2
          \<and> store r2 = [tweet_row_A] \<and> inserted r2 = 0 \<and> requests r2 = [])
   \<and> store_fb_posts world0 user0 [] [fb_post_P]
     = Inr \<lparr>store = [fb_row_P], inserted = 1,
            requests = [fb_prompt ''Ann'' ''English'' ''hello''], errors = []\<rparr>
   \<and> stored_text world0 (get_default fb_post_P ''postId'' (get_default fb_post_P ''id'' (JStr [])))
     = py_str world0 (get_default fb_post_P ''postId'' (get_default fb_post_P ''id'' (JStr [])))
   \<and> (\<exists>r2. store_fb_posts world0 user0 [fb_row_P] [fb_post_P] = Inr r2
          \<and> store r2 = [fb_row_P] \<and> inserted r2 = 0 \<and> requests r2 = [])"
proof -
  have a: "store_tweets world0 user0 738894 738895 [] [tweet_A, tweet_B]
             = Inr \<lparr>store = [tweet_row_A], inserted = 1, requests = [], errors = []\<rparr>"
    by code_simp
  have b: "store_fb_posts world0 user0 [] [fb_post_P]
             = Inr \<lparr>store = [fb_row_P], inserted = 1,
                    requests = [fb_prompt ''Ann'' ''English'' ''hello''], errors = []\<rparr>"
    by code_simp
  have c: "stored_text world0
             (get_default fb_post_P ''postId'' (get_default fb_post_P ''id'' (JStr [])))
           = py_str world0
               (get_default fb_post_P ''postId'' (get_default fb_post_P ''id'' (JStr [])))"
    by code_simp
  then have d: "\<forall>t \<in> set [fb_post_P].
      stored_text world0 (get_default t ''postId'' (get_default t ''id'' (JStr [])))
        = py_str world0 (get_default t ''postId'' (get_default t ''id'' (JStr [])))"
    by simp
  from rerun_inserts_nothing [where w = world0 and u = user0 and start_d = 738894
      and until_d = 738895 and db = "[]" and items = "[tweet_A, tweet_B]"
      and r = "\<lparr>store = [tweet_row_A], inserted = 1, requests = [], errors = []\<rparr>"
      and fdb = "[]" and fr = "\<lparr>store = [fb_row_P], inserted = 1,
            requests = [fb_prompt ''Ann'' ''English'' ''hello''], errors = []\<rparr>"] a
  have t: "\<exists>r2. store_tweets world0 user0 738894 738895 [tweet_row_A] [tweet_A, tweet_B] = Inr r2
          \<and> store r2 = [tweet_row_A] \<and> inserted r2 = 0 \<and> requests r2 = []"
    by simp
  from rerun_inserts_nothing [where w = world0 and u = user0 and start_d = 738894
      and until_d = 738895 and db = "[]" and items = "[fb_post_P]"
      and r = "\<lparr>store = [tweet_row_A], inserted = 1, requests = [], errors = []\<rparr>"
      and fdb = "[]" and fr = "\<lparr>store = [fb_row_P], inserted = 1,
            requests = [fb_prompt ''Ann'' ''English'' ''hello''], errors = []\<rparr>"] b d
  have f: "\<exists>r2. store_fb_posts world0 user0 [fb_row_P] [fb_post_P] = Inr r2
          \<and> store r2 = [fb_row_P] \<and> inserted r2 = 0 \<and> requests r2 = []"
    by simp
  from a b c t f show ?thesis by blast
qed

text \<open>
  C2 as stated fails: the window is computed from the clock at every invocation. On
  2024-01-10 the dataset \<open>tweet_A\<close>, \<open>tweet_B\<close> yields one insert, \<open>tweet_A\<close>, and \<open>tweet_B\<close>
  is out of window; on 2024-01-11 the unchanged dataset, on the table the first run
  left, yields one more insert, \<open>tweet_B\<close>.
\<close>

theorem rerun_next_day_counterexample:
  "scrape_and_store_tweets_for_user world_day1 user0 []
     = Inr \<lparr>store = [tweet_row_A], inserted = 1, requests = [], errors = []\<rparr>
   \<and> scrape_and_store_tweets_for_user world_day2 user0 [tweet_row_A]
     = Inr \<lparr>store = [tweet_row_A, tweet_row_B], inserted = 1, requests = [], errors = []\<rparr>"
  by code_simp

text \<open>
  The condition on the post ids is needed. A post whose id is the JSON value \<open>true\<close> is
  looked up as \<open>True\<close> and stored as the database stores a boolean, here \<open>1\<close>: the same
  invocation again inserts it again.
\<close>

lemma fb_rerun_non_string_id:
  "store_fb_posts world0 user0 [] [fb_post_T]
     = Inr \<lparr>store = [fb_row_T], inserted = 1,
            requests = [fb_prompt ''Ann'' ''English'' []], errors = []\<rparr>
   \<and> map_sum id inserted (store_fb_posts world0 user0 [fb_row_T] [fb_post_T]) = Inr 1"
  by code_simp

end
